theory Spec2Isabelle
  imports Complex_Main "HOL-Library.AList" "HOL-Library.List_Lexorder" "HOL-Library.Char_ord"
begin

section \<open>Python values\<close>

text \<open>
  The program is a single Python script, \<^verbatim>\<open>pricing_schedule_check.py\<close>. It handles parsed
  JSON throughout: responses of the device-management API, the station listing, and its own
  persisted files. A parsed JSON value is modelled by \<open>json\<close>. A Python \<^verbatim>\<open>dict\<close> keeps
  insertion order and has unique keys, so an object is an association list that is read with
  \<open>map_of\<close>. A float is modelled by its exact rational value (every finite double is a
  rational, and Python compares numbers by value); the non-finite floats are left out.
  Strings are lists of characters read as code points; every literal the program compares
  against is ASCII.
\<close>

datatype json =
    JNull
  | JBool bool
  | JInt int
  | JFloat rat
  | JStr string
  | JArr "json list"
  | JObj "(string \<times> json) list"

text \<open>The exceptions the modelled code can raise; \<open>SystemExit n\<close> is \<^verbatim>\<open>sys.exit(n)\<close>.\<close>

datatype pyexn = AttributeError | TypeError | KeyError | EOFError | SystemExit nat

text \<open>Truth value of a JSON value, as \<^verbatim>\<open>if x:\<close> and \<^verbatim>\<open>not x\<close> test it.\<close>

fun truthy :: "json \<Rightarrow> bool" where
  "truthy JNull = False"
| "truthy (JBool b) = b"
| "truthy (JInt i) = (i \<noteq> 0)"
| "truthy (JFloat r) = (r \<noteq> 0)"
| "truthy (JStr s) = (s \<noteq> [])"
| "truthy (JArr xs) = (xs \<noteq> [])"
| "truthy (JObj kvs) = (kvs \<noteq> [])"

text \<open>\<^verbatim>\<open>d.get(k, default)\<close> on a dict.\<close>

definition dict_get :: "(string \<times> json) list \<Rightarrow> string \<Rightarrow> json \<Rightarrow> json" where
  "dict_get kvs k d = (case map_of kvs k of None \<Rightarrow> d | Some v \<Rightarrow> v)"

text \<open>
  \<^verbatim>\<open>x.get(k, default)\<close> on any value: only a dict has the method, every other JSON value
  raises \<^verbatim>\<open>AttributeError\<close>.
\<close>

fun py_get :: "json \<Rightarrow> string \<Rightarrow> json \<Rightarrow> pyexn + json" where
  "py_get (JObj kvs) k d = Inr (dict_get kvs k d)"
| "py_get _ k d = Inl AttributeError"

text \<open>
  \<^verbatim>\<open>for item in x\<close>: a list yields its elements, a dict its keys, a string its characters;
  \<^verbatim>\<open>None\<close>, booleans and numbers are not iterable.
\<close>

fun py_iter :: "json \<Rightarrow> pyexn + json list" where
  "py_iter (JArr xs) = Inr xs"
| "py_iter (JObj kvs) = Inr (map (\<lambda>kv. JStr (fst kv)) kvs)"
| "py_iter (JStr s) = Inr (map (\<lambda>c. JStr [c]) s)"
| "py_iter _ = Inl TypeError"

text \<open>
  The numeric value of a JSON value when it is a number (\<^verbatim>\<open>True\<close> and \<^verbatim>\<open>False\<close> are the
  integers 1 and 0 in Python). \<^verbatim>\<open>x != c\<close> for a float constant \<open>c\<close> holds unless \<open>x\<close> is a
  number of the same value.
\<close>

fun py_num :: "json \<Rightarrow> rat option" where
  "py_num (JBool b) = Some (if b then 1 else 0)"
| "py_num (JInt i) = Some (of_int i)"
| "py_num (JFloat r) = Some r"
| "py_num _ = None"

definition py_ne_float :: "json \<Rightarrow> rat \<Rightarrow> bool" where
  "py_ne_float x c = (py_num x \<noteq> Some c)"

section \<open>Schedule classification\<close>

text \<open>
  \<^verbatim>\<open>check_schedule_values(schedule, expected_f=0.5)\<close>. The loop appends one
  \<^verbatim>\<open>{"t": t, "f": f}\<close> per entry whose \<^verbatim>\<open>f\<close> differs from the expected value; a missing key
  reads as \<^verbatim>\<open>None\<close>. The result is the pair \<^verbatim>\<open>(all_correct, mismatches)\<close> with
  \<^verbatim>\<open>all_correct\<close> one of \<^verbatim>\<open>None\<close>, \<^verbatim>\<open>True\<close>, \<^verbatim>\<open>False\<close>.
\<close>

definition expected_f :: rat where
  "expected_f = 1 / 2"

fun check_entries :: "json list \<Rightarrow> json list \<Rightarrow> pyexn + json list" where
  "check_entries [] mismatches = Inr mismatches"
| "check_entries (entry # rest) mismatches =
     (case entry of
        JObj kvs \<Rightarrow>
          (let t = dict_get kvs ''t'' JNull;
               f = dict_get kvs ''f'' JNull
           in check_entries rest
                (if py_ne_float f expected_f
                 then mismatches @ [JObj [(''t'', t), (''f'', f)]]
                 else mismatches))
      | _ \<Rightarrow> Inl AttributeError)"

definition check_schedule_values :: "json \<Rightarrow> pyexn + (bool option \<times> json list)" where
  "check_schedule_values schedule =
     (if \<not> truthy schedule then Inr (None, [])
      else case py_iter schedule of
             Inl e \<Rightarrow> Inl e
           | Inr entries \<Rightarrow>
               (case check_entries entries [] of
                  Inl e \<Rightarrow> Inl e
                | Inr mismatches \<Rightarrow> Inr (Some (length mismatches = 0), mismatches)))"

text \<open>
  The three verdicts of the data model, as \<^verbatim>\<open>print_results\<close> reads \<^verbatim>\<open>all_correct\<close>:
  \<^verbatim>\<open>is True\<close> is conforming, \<^verbatim>\<open>is False\<close> deviating, \<^verbatim>\<open>is None\<close> indeterminate.
\<close>

datatype verdict = Conforming | Deviating | Indeterminate

fun verdict_of :: "bool option \<Rightarrow> verdict" where
  "verdict_of None = Indeterminate"
| "verdict_of (Some True) = Conforming"
| "verdict_of (Some False) = Deviating"

text \<open>An entry deviates when its \<^verbatim>\<open>f\<close> differs from 0.5; its mismatch record keeps \<^verbatim>\<open>t\<close> and \<^verbatim>\<open>f\<close>.\<close>

definition deviates :: "(string \<times> json) list \<Rightarrow> bool" where
  "deviates kvs = py_ne_float (dict_get kvs ''f'' JNull) expected_f"

definition mismatch_of :: "(string \<times> json) list \<Rightarrow> json" where
  "mismatch_of kvs = JObj [(''t'', dict_get kvs ''t'' JNull), (''f'', dict_get kvs ''f'' JNull)]"

section \<open>Strings\<close>

text \<open>
  The string methods the program uses. \<^verbatim>\<open>str.split()\<close> with no argument splits on runs of
  whitespace and drops empty pieces; \<^verbatim>\<open>str.strip()\<close> removes whitespace at both ends;
  \<^verbatim>\<open>sep.join(parts)\<close> concatenates with the separator in between. Whitespace is what
  \<^verbatim>\<open>str.isspace\<close> accepts among the code points below 256.
\<close>

definition is_space :: "char \<Rightarrow> bool" where
  "is_space c = (c \<in> set [CHR 0x09, CHR 0x0A, CHR 0x0B, CHR 0x0C, CHR 0x0D,
                           CHR 0x1C, CHR 0x1D, CHR 0x1E, CHR 0x1F, CHR '' '',
                           CHR 0x85, CHR 0xA0])"

fun split_ws :: "string \<Rightarrow> string \<Rightarrow> string list" where
  "split_ws [] cur = (if cur = [] then [] else [cur])"
| "split_ws (c # cs) cur =
     (if is_space c then (if cur = [] then split_ws cs [] else cur # split_ws cs [])
      else split_ws cs (cur @ [c]))"

definition py_split :: "string \<Rightarrow> string list" where
  "py_split s = split_ws s []"

definition py_strip :: "string \<Rightarrow> string" where
  "py_strip s = rev (dropWhile is_space (rev (dropWhile is_space s)))"

fun join :: "string \<Rightarrow> string list \<Rightarrow> string" where
  "join sep [] = []"
| "join sep [x] = x"
| "join sep (x # y # ys) = x @ sep @ join sep (y # ys)"

definition replace_char :: "char \<Rightarrow> char \<Rightarrow> string \<Rightarrow> string" where
  "replace_char a b s = map (\<lambda>c. if c = a then b else c) s"

text \<open>
  \<^verbatim>\<open>str.lower()\<close> on the ASCII letters. The program lowers a string only to compare it with
  an ASCII literal (\<^verbatim>\<open>"true"\<close>, \<^verbatim>\<open>"yes"\<close>, \<^verbatim>\<open>"y"\<close>) or to search it for \<^verbatim>\<open>"liteon"\<close>.
\<close>

definition lower_char :: "char \<Rightarrow> char" where
  "lower_char c =
     (case map_of (zip ''ABCDEFGHIJKLMNOPQRSTUVWXYZ'' ''abcdefghijklmnopqrstuvwxyz'') c of
        None \<Rightarrow> c
      | Some d \<Rightarrow> d)"

definition py_lower :: "string \<Rightarrow> string" where
  "py_lower s = map lower_char s"

text \<open>\<^verbatim>\<open>s.startswith(p)\<close>, \<^verbatim>\<open>sub in s\<close> and \<^verbatim>\<open>s.split(sep)\<close> for a one-character separator.\<close>

definition startswith :: "string \<Rightarrow> string \<Rightarrow> bool" where
  "startswith s p = (take (length p) s = p)"

fun contains :: "string \<Rightarrow> string \<Rightarrow> bool" where
  "contains [] sub = (sub = [])"
| "contains (c # cs) sub = (startswith (c # cs) sub \<or> contains cs sub)"

fun split_on :: "char \<Rightarrow> string \<Rightarrow> string \<Rightarrow> string list" where
  "split_on sep [] cur = [cur]"
| "split_on sep (c # cs) cur =
     (if c = sep then cur # split_on sep cs [] else split_on sep cs (cur @ [c]))"

definition py_split_on :: "char \<Rightarrow> string \<Rightarrow> string list" where
  "py_split_on sep s = split_on sep s []"

text \<open>
  An argument that may be \<^verbatim>\<open>None\<close> is a \<open>string option\<close>. \<open>py_fmt\<close> is how an f-string
  renders it, \<open>opt_truthy\<close> its truth value, \<open>opt_part\<close> the list it contributes under
  \<^verbatim>\<open>if x: parts.append(x)\<close>.
\<close>

definition py_fmt :: "string option \<Rightarrow> string" where
  "py_fmt x = (case x of None \<Rightarrow> ''None'' | Some s \<Rightarrow> s)"

definition opt_truthy :: "string option \<Rightarrow> bool" where
  "opt_truthy x = (case x of None \<Rightarrow> False | Some s \<Rightarrow> s \<noteq> [])"

definition opt_part :: "string option \<Rightarrow> string list" where
  "opt_part x = (case x of None \<Rightarrow> [] | Some s \<Rightarrow> if s \<noteq> [] then [s] else [])"

section \<open>Hierarchy resolver\<close>

text \<open>
  \<^verbatim>\<open>parse_pfid_input(args)\<close>: the arguments are joined with spaces, hyphens become spaces,
  and the pieces of \<^verbatim>\<open>split()\<close> that are non-empty after \<^verbatim>\<open>strip()\<close> are the parts. The
  result dict has the keys \<^verbatim>\<open>acn\<close>, \<^verbatim>\<open>acc\<close>, \<^verbatim>\<open>acg\<close>, \<^verbatim>\<open>acs\<close>, \<^verbatim>\<open>mode\<close>, all
  \<^verbatim>\<open>None\<close> at first.
\<close>

definition pfid_parts :: "string list \<Rightarrow> string list" where
  "pfid_parts args =
     map py_strip (filter (\<lambda>part. py_strip part \<noteq> [])
       (py_split (replace_char CHR ''-'' CHR '' '' (join '' '' args))))"

record pfid_info =
  pi_acn :: "string option"
  pi_acc :: "string option"
  pi_acg :: "string option"
  pi_acs :: "string option"
  pi_mode :: "string option"

definition parse_pfid_input :: "string list \<Rightarrow> pfid_info" where
  "parse_pfid_input args =
     (let parts = pfid_parts args;
          result = \<lparr>pi_acn = None, pi_acc = None, pi_acg = None, pi_acs = None, pi_mode = None\<rparr>;
          result = (if length parts \<ge> 1
                    then result\<lparr>pi_acn := Some (parts ! 0), pi_mode := Some ''acn-only''\<rparr>
                    else result);
          result = (if length parts \<ge> 2
                    then result\<lparr>pi_acc := Some (parts ! 1), pi_mode := Some ''acn-acc''\<rparr>
                    else result);
          result = (if length parts \<ge> 3
                    then result\<lparr>pi_acg := Some (parts ! 2), pi_mode := Some ''acn-acc-acg''\<rparr>
                    else result);
          result = (if length parts \<ge> 4
                    then result\<lparr>pi_acs := Some (parts ! 3), pi_mode := Some ''acn-acc-acg-acs''\<rparr>
                    else result)
      in result)"

text \<open>
  \<^verbatim>\<open>build_pfid_prefix\<close> joins the level-1 identifier and the truthy deeper ones with
  hyphens; \<^verbatim>\<open>"-".join\<close> raises \<^verbatim>\<open>TypeError\<close> on a \<^verbatim>\<open>None\<close> item.
\<close>

definition build_pfid_prefix ::
  "string option \<Rightarrow> string option \<Rightarrow> string option \<Rightarrow> string option \<Rightarrow> pyexn + string" where
  "build_pfid_prefix acn acc acg acs =
     (case acn of
        None \<Rightarrow> Inl TypeError
      | Some a \<Rightarrow> Inr (join ''-'' ([a] @ opt_part acc @ opt_part acg @ opt_part acs)))"

text \<open>\<^verbatim>\<open>get_site_key\<close>: the ledger key of a scope, chosen by the mode or by which levels are given.\<close>

definition get_site_key ::
  "string option \<Rightarrow> string option \<Rightarrow> string option \<Rightarrow> string option \<Rightarrow> string option
   \<Rightarrow> string option" where
  "get_site_key acn_id acc_id acg_id acs_id mode =
     (if mode = Some ''acn-only'' \<or> (acc_id = None \<and> acg_id = None \<and> acs_id = None)
      then acn_id
      else if mode = Some ''acn-acc'' \<or> (acg_id = None \<and> acs_id = None)
      then Some (py_fmt acn_id @ ''-'' @ py_fmt acc_id)
      else if mode = Some ''acn-acc-acg'' \<or> acs_id = None
      then Some (py_fmt acn_id @ ''-'' @ py_fmt acc_id @ ''-'' @ py_fmt acg_id)
      else Some (py_fmt acn_id @ ''-'' @ py_fmt acc_id @ ''-'' @ py_fmt acg_id
                   @ ''-'' @ py_fmt acs_id))"

section \<open>Data model\<close>

text \<open>
  The dicts the program builds with a fixed set of keys are records. A field that may hold
  \<^verbatim>\<open>None\<close> is an option, or a \<open>json\<close> with \<open>JNull\<close> for \<^verbatim>\<open>None\<close>. A scan result is the
  dict \<^verbatim>\<open>process_stations\<close> appends, a station record and a site entry are what
  \<^verbatim>\<open>save_odd_ones_out\<close> writes into the odd-ones-out file (the deviation ledger), and a progress
  record is the content of the progress file (the sweep checkpoint), whose two shapes differ
  in which keys are present.
\<close>

record scan_result =
  r_pfid :: string
  r_acn_id :: "string option"
  r_acc_id :: "string option"
  r_acg_id :: "string option"
  r_acs_id :: "string option"
  r_schedule :: json
  r_enabled :: bool
  r_all_correct :: "bool option"
  r_mismatches :: "json list"

record station =
  s_pfid :: string
  s_acn_id :: "string option"
  s_acc_id :: "string option"
  s_acg_id :: "string option"
  s_acs_id :: "string option"
  s_current_schedule :: json
  s_mismatches :: "json list"
  s_update_status :: string
  s_rejection_reason :: json
  s_last_attempt :: "string option"

record site_entry =
  e_mode :: string
  e_acn_id :: "string option"
  e_acc_id :: "string option"
  e_acg_id :: "string option"
  e_acs_id :: "string option"
  e_saved_at :: string
  e_last_updated :: string
  e_correct_schedule :: json
  e_stations :: "station list"

text \<open>The \<^verbatim>\<open>"sites"\<close> dict of the ledger file, in insertion order.\<close>

type_synonym ledger = "(string \<times> site_entry) list"

record progress =
  p_mode :: "string option"
  p_acn_id :: "string option"
  p_acc_id :: "string option"
  p_acg_id :: "string option"
  p_acs_id :: "string option"
  p_total_accs :: "nat option"
  p_completed_accs :: "string list option"
  p_results :: "scan_result list option"
  p_started_at :: "string option"

record site_row =
  d_acn_id :: "string option"
  d_acc_id :: "string option"

section \<open>The outside world and the program state\<close>

text \<open>
  Every call of \<^verbatim>\<open>curl_device_manager.sh\<close> ends in one of three ways: the process fails
  (\<^verbatim>\<open>CalledProcessError\<close>, with its message), its output is not JSON
  (\<^verbatim>\<open>JSONDecodeError\<close>), or it parses. The calls the program makes are logged in order, and
  what a call returns may depend on every call made before it. The clock is read by
  \<^verbatim>\<open>datetime.now().isoformat()\<close>; the \<open>n\<close>-th reading whose value is stored is
  \<open>now_iso n\<close>. \<^verbatim>\<open>json.loads\<close>, \<^verbatim>\<open>json.dumps\<close> and \<^verbatim>\<open>str\<close> on a JSON value are library
  functions and are taken as given. The site directory is read through the cache or the
  API; the model only sees the rows, or the failure that ends in \<^verbatim>\<open>sys.exit(1)\<close>. The
  background thread that renews the credential is not modelled.
\<close>

datatype call_outcome = CalledProcessError string | JSONDecodeError | Parsed json

datatype call =
    GetJwt
  | GetSiteData
  | FetchStationData "string option" "string option"
  | GetConfiguration json string
  | SetConfiguration json string string

record world =
  api_reply :: "call list \<Rightarrow> call \<Rightarrow> call_outcome"
  jwt_reply :: "call list \<Rightarrow> bool"
  site_data_reply :: "call list \<Rightarrow> site_row list option"
  now_iso :: "nat \<Rightarrow> string"
  json_loads :: "string \<Rightarrow> json option"
  json_dumps :: "json \<Rightarrow> string"
  py_str :: "json \<Rightarrow> string"

text \<open>
  The state the program acts on: the log of external calls, the number of clock readings,
  the lines still to be read from standard input, and the two files. A file is kept with its
  history, newest first, one element per write (and per removal, \<open>None\<close>); an empty
  history is a file that does not exist. Writes are taken to succeed.
\<close>

record sys =
  calls :: "call list"
  ticks :: nat
  stdin :: "string list"
  progress_hist :: "progress option list"
  ledger_hist :: "ledger list"

definition api_call :: "world \<Rightarrow> call \<Rightarrow> sys \<Rightarrow> call_outcome \<times> sys" where
  "api_call X c st = (api_reply X (calls st) c, st\<lparr>calls := calls st @ [c]\<rparr>)"

definition now :: "world \<Rightarrow> sys \<Rightarrow> string \<times> sys" where
  "now X st = (now_iso X (ticks st), st\<lparr>ticks := Suc (ticks st)\<rparr>)"

text \<open>\<^verbatim>\<open>input()\<close> returns the next line, or raises \<^verbatim>\<open>EOFError\<close> at the end of input.\<close>

definition py_input :: "sys \<Rightarrow> (pyexn + string) \<times> sys" where
  "py_input st =
     (case stdin st of
        [] \<Rightarrow> (Inl EOFError, st)
      | line # rest \<Rightarrow> (Inr line, st\<lparr>stdin := rest\<rparr>))"

definition get_jwt :: "world \<Rightarrow> sys \<Rightarrow> bool \<times> sys" where
  "get_jwt X st = (jwt_reply X (calls st), st\<lparr>calls := calls st @ [GetJwt]\<rparr>)"

definition get_site_data :: "world \<Rightarrow> sys \<Rightarrow> (pyexn + site_row list) \<times> sys" where
  "get_site_data X st =
     (case site_data_reply X (calls st) of
        None \<Rightarrow> (Inl (SystemExit 1), st\<lparr>calls := calls st @ [GetSiteData]\<rparr>)
      | Some rows \<Rightarrow> (Inr rows, st\<lparr>calls := calls st @ [GetSiteData]\<rparr>))"

text \<open>\<^verbatim>\<open>get_accs_for_acn\<close>: the truthy level-2 identifiers of the rows of one level-1
  identifier, as \<^verbatim>\<open>sorted(list(set(...)))\<close>.\<close>

definition get_accs_for_acn :: "site_row list \<Rightarrow> string option \<Rightarrow> string list" where
  "get_accs_for_acn site_data acn_id =
     sort (remdups (concat (map (\<lambda>site.
        if d_acn_id site = acn_id then opt_part (d_acc_id site) else []) site_data)))"

subsection \<open>The progress file\<close>

definition load_progress :: "sys \<Rightarrow> progress option" where
  "load_progress st = (case progress_hist st of [] \<Rightarrow> None | p # _ \<Rightarrow> p)"

definition save_progress :: "progress \<Rightarrow> sys \<Rightarrow> sys" where
  "save_progress p st = st\<lparr>progress_hist := Some p # progress_hist st\<rparr>"

definition delete_progress :: "sys \<Rightarrow> sys" where
  "delete_progress st =
     (if load_progress st \<noteq> None then st\<lparr>progress_hist := None # progress_hist st\<rparr> else st)"

subsection \<open>The ledger file\<close>

definition load_all_odd_ones_out :: "sys \<Rightarrow> ledger" where
  "load_all_odd_ones_out st = (case ledger_hist st of [] \<Rightarrow> [] | l # _ \<Rightarrow> l)"

definition save_all_odd_ones_out :: "ledger \<Rightarrow> sys \<Rightarrow> sys" where
  "save_all_odd_ones_out l st = st\<lparr>ledger_hist := l # ledger_hist st\<rparr>"

subsection \<open>API functions\<close>

text \<open>
  \<^verbatim>\<open>fetch_station_data\<close> returns \<^verbatim>\<open>{}\<close> on either failure; \<^verbatim>\<open>get_configuration\<close> and
  \<^verbatim>\<open>set_configuration\<close> return \<^verbatim>\<open>{"error": ...}\<close>.
\<close>

definition fetch_station_data ::
  "world \<Rightarrow> string option \<Rightarrow> string option \<Rightarrow> sys \<Rightarrow> json \<times> sys" where
  "fetch_station_data X acn_id acc_id st =
     (case api_call X (FetchStationData acn_id acc_id) st of
        (CalledProcessError e, st') \<Rightarrow> (JObj [], st')
      | (JSONDecodeError, st') \<Rightarrow> (JObj [], st')
      | (Parsed j, st') \<Rightarrow> (j, st'))"

definition call_result :: "call_outcome \<Rightarrow> json" where
  "call_result r =
     (case r of
        CalledProcessError e \<Rightarrow> JObj [(''error'', JStr e)]
      | JSONDecodeError \<Rightarrow> JObj [(''error'', JStr ''Invalid JSON response'')]
      | Parsed j \<Rightarrow> j)"

definition get_configuration :: "world \<Rightarrow> json \<Rightarrow> string \<Rightarrow> sys \<Rightarrow> json \<times> sys" where
  "get_configuration X pfid key st =
     (case api_call X (GetConfiguration pfid key) st of (r, st') \<Rightarrow> (call_result r, st'))"

definition set_configuration ::
  "world \<Rightarrow> json \<Rightarrow> string \<Rightarrow> string \<Rightarrow> sys \<Rightarrow> json \<times> sys" where
  "set_configuration X pfid key val st =
     (case api_call X (SetConfiguration pfid key val) st of (r, st') \<Rightarrow> (call_result r, st'))"

section \<open>Scan engine\<close>

text \<open>
  Both extractors start with \<^verbatim>\<open>response.get("natsResponse", {}).get("configuration_key", [])\<close>.
\<close>

definition config_keys :: "json \<Rightarrow> pyexn + json" where
  "config_keys response =
     (case py_get response ''natsResponse'' (JObj []) of
        Inl e \<Rightarrow> Inl e
      | Inr nats \<Rightarrow> py_get nats ''configuration_key'' (JArr []))"

text \<open>
  \<^verbatim>\<open>extract_pricing_enabled\<close>: the loop returns at the first item whose key is
  \<^verbatim>\<open>PricingScheduleEnable\<close>; \<^verbatim>\<open>.lower()\<close> needs a string. The function catches
  \<^verbatim>\<open>TypeError\<close> and \<^verbatim>\<open>KeyError\<close> and then returns \<^verbatim>\<open>None\<close>; an \<^verbatim>\<open>AttributeError\<close>
  passes through.
\<close>

fun find_enabled :: "json list \<Rightarrow> pyexn + bool option" where
  "find_enabled [] = Inr None"
| "find_enabled (item # rest) =
     (case py_get item ''key'' JNull of
        Inl e \<Rightarrow> Inl e
      | Inr k \<Rightarrow>
          if k = JStr ''PricingScheduleEnable''
          then (case py_get item ''value'' (JStr '''') of
                  Inl e \<Rightarrow> Inl e
                | Inr (JStr v) \<Rightarrow> Inr (Some (py_lower v = ''true''))
                | Inr _ \<Rightarrow> Inl AttributeError)
          else find_enabled rest)"

definition except_type_key :: "pyexn + 'a option \<Rightarrow> pyexn + 'a option" where
  "except_type_key r =
     (case r of
        Inl TypeError \<Rightarrow> Inr None
      | Inl KeyError \<Rightarrow> Inr None
      | _ \<Rightarrow> r)"

definition extract_pricing_enabled :: "json \<Rightarrow> pyexn + bool option" where
  "extract_pricing_enabled response =
     except_type_key
       (case config_keys response of
          Inl e \<Rightarrow> Inl e
        | Inr ck \<Rightarrow> (case py_iter ck of Inl e \<Rightarrow> Inl e | Inr items \<Rightarrow> find_enabled items))"

text \<open>
  \<^verbatim>\<open>extract_pricing_schedule\<close>: \<^verbatim>\<open>json.loads\<close> raises \<^verbatim>\<open>TypeError\<close> on a value that is
  not a string and \<^verbatim>\<open>JSONDecodeError\<close> on text that is not JSON (\<open>json_loads\<close> gives
  \<open>None\<close>); both are caught. The result \<open>JNull\<close> is Python's \<^verbatim>\<open>None\<close>.
\<close>

fun find_schedule :: "world \<Rightarrow> json list \<Rightarrow> pyexn + json option" where
  "find_schedule X [] = Inr None"
| "find_schedule X (item # rest) =
     (case py_get item ''key'' JNull of
        Inl e \<Rightarrow> Inl e
      | Inr k \<Rightarrow>
          if k = JStr ''PricingSchedule''
          then (case py_get item ''value'' (JStr ''[]'') of
                  Inl e \<Rightarrow> Inl e
                | Inr (JStr v) \<Rightarrow> Inr (json_loads X v)
                | Inr _ \<Rightarrow> Inl TypeError)
          else find_schedule X rest)"

definition extract_pricing_schedule :: "world \<Rightarrow> json \<Rightarrow> pyexn + json" where
  "extract_pricing_schedule X response =
     (case except_type_key
        (case config_keys response of
           Inl e \<Rightarrow> Inl e
         | Inr ck \<Rightarrow> (case py_iter ck of Inl e \<Rightarrow> Inl e | Inr items \<Rightarrow> find_schedule X items)) of
        Inl e \<Rightarrow> Inl e
      | Inr None \<Rightarrow> Inr JNull
      | Inr (Some schedule) \<Rightarrow> Inr schedule)"

text \<open>
  One round of the loop over the candidate stations in \<^verbatim>\<open>process_stations\<close>: read the
  flag, enable it unless it read as true, read the schedule, classify, split the identifier
  on hyphens (which needs a string), and build the result dict. The value
  \<^verbatim>\<open>set_configuration\<close> returns is dropped.
\<close>

definition scan_station ::
  "world \<Rightarrow> string option \<Rightarrow> string option \<Rightarrow> json \<Rightarrow> sys \<Rightarrow> (pyexn + scan_result) \<times> sys" where
  "scan_station X acn_id acc_id pfid st =
     (case get_configuration X pfid ''PricingScheduleEnable'' st of
        (enable_response, st1) \<Rightarrow>
     (case extract_pricing_enabled enable_response of
        Inl e \<Rightarrow> (Inl e, st1)
      | Inr enabled \<Rightarrow>
     (case (if enabled \<noteq> Some True
            then snd (set_configuration X pfid ''PricingScheduleEnable'' ''true'' st1)
            else st1) of st2 \<Rightarrow>
     (case get_configuration X pfid ''PricingSchedule'' st2 of
        (schedule_response, st3) \<Rightarrow>
     (case extract_pricing_schedule X schedule_response of
        Inl e \<Rightarrow> (Inl e, st3)
      | Inr schedule \<Rightarrow>
     (case check_schedule_values schedule of
        Inl e \<Rightarrow> (Inl e, st3)
      | Inr (all_correct, mismatches) \<Rightarrow>
     (case pfid of
        JStr p \<Rightarrow>
          (let pfid_parts = py_split_on CHR ''-'' p
           in (Inr \<lparr>r_pfid = p, r_acn_id = acn_id, r_acc_id = acc_id,
                     r_acg_id = (if length pfid_parts > 2 then Some (pfid_parts ! 2) else None),
                     r_acs_id = (if length pfid_parts > 3 then Some (pfid_parts ! 3) else None),
                     r_schedule = schedule, r_enabled = True,
                     r_all_correct = all_correct, r_mismatches = mismatches\<rparr>, st3))
      | _ \<Rightarrow> (Inl AttributeError, st3))))))))"

fun scan_stations ::
  "world \<Rightarrow> string option \<Rightarrow> string option \<Rightarrow> json list \<Rightarrow> scan_result list \<Rightarrow> sys
   \<Rightarrow> (pyexn + scan_result list) \<times> sys" where
  "scan_stations X acn_id acc_id [] all_results st = (Inr all_results, st)"
| "scan_stations X acn_id acc_id (pfid # rest) all_results st =
     (case scan_station X acn_id acc_id pfid st of
        (Inl e, st') \<Rightarrow> (Inl e, st')
      | (Inr r, st') \<Rightarrow> scan_stations X acn_id acc_id rest (all_results @ [r]) st')"

text \<open>
  The filter loop of \<^verbatim>\<open>process_stations\<close>. An entry without a truthy \<^verbatim>\<open>pfid\<close> is
  skipped; with a prefix, an entry whose identifier does not start with it is filtered out;
  of the rest, those whose \<^verbatim>\<open>evse_type\<close> contains \<^verbatim>\<open>liteon\<close> in any case are kept (the
  count of the other models is only printed).
\<close>

definition prefix_ok :: "string option \<Rightarrow> json \<Rightarrow> pyexn + bool" where
  "prefix_ok pfid_prefix pfid =
     (if opt_truthy pfid_prefix
      then (case pfid of
              JStr p \<Rightarrow> Inr (startswith p (py_fmt pfid_prefix))
            | _ \<Rightarrow> Inl AttributeError)
      else Inr True)"

fun select_liteon :: "string option \<Rightarrow> json list \<Rightarrow> json list \<Rightarrow> pyexn + json list" where
  "select_liteon pfid_prefix [] liteon_entries = Inr liteon_entries"
| "select_liteon pfid_prefix (entry # rest) liteon_entries =
     (case py_get entry ''pfid'' JNull of
        Inl e \<Rightarrow> Inl e
      | Inr pfid \<Rightarrow>
          if \<not> truthy pfid then select_liteon pfid_prefix rest liteon_entries
          else (case prefix_ok pfid_prefix pfid of
                  Inl e \<Rightarrow> Inl e
                | Inr False \<Rightarrow> select_liteon pfid_prefix rest liteon_entries
                | Inr True \<Rightarrow>
                    (case py_get entry ''evse_type'' (JStr ''Unknown'') of
                       Inl e \<Rightarrow> Inl e
                     | Inr (JStr evse_type) \<Rightarrow>
                         if contains (py_lower evse_type) ''liteon''
                         then select_liteon pfid_prefix rest (liteon_entries @ [entry])
                         else select_liteon pfid_prefix rest liteon_entries
                     | Inr _ \<Rightarrow> Inl AttributeError)))"

text \<open>
  \<^verbatim>\<open>process_stations(acn_id, acc_id, acg_id, acs_id, all_results)\<close>. \<open>or_empty\<close> is
  \<^verbatim>\<open>all_results or []\<close>; the prefix is built only when \<^verbatim>\<open>acg_id\<close> is truthy;
  \<^verbatim>\<open>stations.values()\<close> needs a dict.
\<close>

definition or_empty :: "'a list option \<Rightarrow> 'a list" where
  "or_empty xs = (case xs of None \<Rightarrow> [] | Some ys \<Rightarrow> ys)"

definition entry_pfid :: "json \<Rightarrow> json" where
  "entry_pfid entry = (case entry of JObj kvs \<Rightarrow> dict_get kvs ''pfid'' JNull | _ \<Rightarrow> JNull)"

definition process_stations ::
  "world \<Rightarrow> string option \<Rightarrow> string option \<Rightarrow> string option \<Rightarrow> string option
   \<Rightarrow> scan_result list option \<Rightarrow> sys \<Rightarrow> (pyexn + scan_result list) \<times> sys" where
  "process_stations X acn_id acc_id acg_id acs_id all_results st =
     (case fetch_station_data X acn_id acc_id st of
        (stations, st1) \<Rightarrow>
     if \<not> truthy stations then (Inr (or_empty all_results), st1)
     else
     (case (if opt_truthy acg_id
            then map_sum id Some (build_pfid_prefix acn_id acc_id acg_id acs_id)
            else Inr None) of
        Inl e \<Rightarrow> (Inl e, st1)
      | Inr pfid_prefix \<Rightarrow>
     (case stations of
        JObj kvs \<Rightarrow>
          (case select_liteon pfid_prefix (map snd kvs) [] of
             Inl e \<Rightarrow> (Inl e, st1)
           | Inr liteon_entries \<Rightarrow>
               (let pfids = map entry_pfid liteon_entries
                in if pfids = [] then (Inr (or_empty all_results), st1)
                   else scan_stations X acn_id acc_id pfids (or_empty all_results) st1))
      | _ \<Rightarrow> (Inl AttributeError, st1))))"

section \<open>Deviation ledger\<close>

text \<open>
  \<^verbatim>\<open>save_odd_ones_out\<close>. Without a level-1 identifier the first record's is taken;
  without a level-2 identifier and outside mode \<^verbatim>\<open>acn-only\<close> the set of the records'
  level-2 identifiers decides. The entry replaces the one under the same key and the file is
  written. A scan result has no \<^verbatim>\<open>update_status\<close> or \<^verbatim>\<open>rejection_reason\<close>, so a saved
  station is \<^verbatim>\<open>pending\<close> with no reason. \<^verbatim>\<open>json.dump\<close> writes a \<^verbatim>\<open>None\<close> key as
  \<^verbatim>\<open>null\<close>.
\<close>

definition json_key :: "string option \<Rightarrow> string" where
  "json_key k = (case k of None \<Rightarrow> ''null'' | Some s \<Rightarrow> s)"

definition station_of :: "scan_result \<Rightarrow> station" where
  "station_of r =
     \<lparr>s_pfid = r_pfid r, s_acn_id = r_acn_id r, s_acc_id = r_acc_id r,
      s_acg_id = r_acg_id r, s_acs_id = r_acs_id r,
      s_current_schedule = r_schedule r, s_mismatches = r_mismatches r,
      s_update_status = ''pending'', s_rejection_reason = JNull, s_last_attempt = None\<rparr>"

definition save_odd_ones_out ::
  "world \<Rightarrow> scan_result list \<Rightarrow> json \<Rightarrow> string option \<Rightarrow> string option \<Rightarrow> string option
   \<Rightarrow> string option \<Rightarrow> string option \<Rightarrow> sys \<Rightarrow> sys" where
  "save_odd_ones_out X odd_ones correct_schedule acn_id0 acc_id0 acg_id acs_id mode0 st =
     (let acn_id = (if acn_id0 = None
                    then (case odd_ones of [] \<Rightarrow> acn_id0 | r # _ \<Rightarrow> r_acn_id r)
                    else acn_id0);
          infer = (acc_id0 = None \<and> odd_ones \<noteq> [] \<and> mode0 \<noteq> Some ''acn-only'');
          accs = remdups (map r_acc_id odd_ones);
          acc_id = (if infer then (case accs of [a] \<Rightarrow> a | _ \<Rightarrow> acc_id0) else acc_id0);
          mode = (if infer \<and> mode0 = None
                  then (if length accs = 1 then Some ''acn-acc'' else Some ''acn-only'')
                  else mode0);
          site_key = get_site_key acn_id acc_id acg_id acs_id mode;
          all_data = load_all_odd_ones_out st;
          site_data =
            \<lparr>e_mode = (if opt_truthy mode then py_fmt mode
                        else if opt_truthy acc_id then ''acn-acc'' else ''acn-only''),
             e_acn_id = acn_id, e_acc_id = acc_id, e_acg_id = acg_id, e_acs_id = acs_id,
             e_saved_at = now_iso X (ticks st),
             e_last_updated = now_iso X (Suc (ticks st)),
             e_correct_schedule = correct_schedule,
             e_stations = map station_of odd_ones\<rparr>
      in save_all_odd_ones_out (AList.update (json_key site_key) site_data all_data)
           (st\<lparr>ticks := Suc (Suc (ticks st))\<rparr>))"

text \<open>
  \<^verbatim>\<open>update_odd_ones_status(pfid, status, rejection_reason, site_key)\<close>: the sites to check
  are the given one, or all keys in order; the first station found with the identifier is
  updated, the site's \<^verbatim>\<open>last_updated\<close> is refreshed, the file is written, and the
  function returns. When nothing matches, nothing is written and the clock is not read.
\<close>

fun update_station :: "string \<Rightarrow> string \<Rightarrow> json \<Rightarrow> string \<Rightarrow> station list \<Rightarrow> station list option" where
  "update_station pfid status rejection_reason t [] = None"
| "update_station pfid status rejection_reason t (station # rest) =
     (if s_pfid station = pfid
      then Some (station\<lparr>s_update_status := status, s_rejection_reason := rejection_reason,
                          s_last_attempt := Some t\<rparr> # rest)
      else (case update_station pfid status rejection_reason t rest of
              None \<Rightarrow> None
            | Some rest' \<Rightarrow> Some (station # rest')))"

fun update_sites ::
  "string \<Rightarrow> string \<Rightarrow> json \<Rightarrow> string \<Rightarrow> string \<Rightarrow> string list \<Rightarrow> ledger \<Rightarrow> ledger option" where
  "update_sites pfid status rejection_reason t1 t2 [] all_data = None"
| "update_sites pfid status rejection_reason t1 t2 (sk # rest) all_data =
     (case map_of all_data sk of
        None \<Rightarrow> update_sites pfid status rejection_reason t1 t2 rest all_data
      | Some site_data \<Rightarrow>
          (case update_station pfid status rejection_reason t1 (e_stations site_data) of
             None \<Rightarrow> update_sites pfid status rejection_reason t1 t2 rest all_data
           | Some stations \<Rightarrow>
               Some (AList.update sk
                 (site_data\<lparr>e_stations := stations, e_last_updated := t2\<rparr>) all_data)))"

definition update_odd_ones_status ::
  "world \<Rightarrow> string \<Rightarrow> string \<Rightarrow> json \<Rightarrow> string option \<Rightarrow> sys \<Rightarrow> sys" where
  "update_odd_ones_status X pfid status rejection_reason site_key st =
     (let all_data = load_all_odd_ones_out st;
          sites_to_check = (if opt_truthy site_key then [py_fmt site_key] else map fst all_data)
      in case update_sites pfid status rejection_reason
                (now_iso X (ticks st)) (now_iso X (Suc (ticks st))) sites_to_check all_data of
           None \<Rightarrow> st
         | Some all_data' \<Rightarrow>
             save_all_odd_ones_out all_data' (st\<lparr>ticks := Suc (Suc (ticks st))\<rparr>))"

text \<open>
  \<^verbatim>\<open>remove_completed_site(site_key)\<close>.
\<close>

definition remove_completed_site :: "string \<Rightarrow> sys \<Rightarrow> sys" where
  "remove_completed_site site_key st =
     (let all_data = load_all_odd_ones_out st
      in case map_of all_data site_key of
           None \<Rightarrow> st
         | Some site_data \<Rightarrow>
             if list_all (\<lambda>s. s_update_status s = ''accepted'') (e_stations site_data)
             then save_all_odd_ones_out (AList.delete site_key all_data) st
             else st)"

section \<open>Remediation driver\<close>

text \<open>
  The body of the update loop, which \<^verbatim>\<open>prompt_update_odd_ones\<close> and
  \<^verbatim>\<open>main_retry_site\<close> both contain word for word: write the schedule, classify the
  response, update the ledger and the two counters (accepted, rejected or error), then
  record an error once more when the result itself has an \<^verbatim>\<open>error\<close> key.
  \<^verbatim>\<open>result.get\<close> needs a dict.
\<close>

definition has_key :: "(string \<times> json) list \<Rightarrow> string \<Rightarrow> bool" where
  "has_key kvs k = (map_of kvs k \<noteq> None)"

definition rejection_reason_of :: "world \<Rightarrow> (string \<times> json) list \<Rightarrow> json" where
  "rejection_reason_of X nats_response =
     (if has_key nats_response ''error'' then dict_get nats_response ''error'' JNull
      else if has_key nats_response ''message'' then dict_get nats_response ''message'' JNull
      else if has_key nats_response ''reason'' then dict_get nats_response ''reason'' JNull
      else JStr (json_dumps X (JObj nats_response)))"

definition update_one ::
  "world \<Rightarrow> string \<Rightarrow> string \<Rightarrow> string option \<Rightarrow> nat \<times> nat \<Rightarrow> sys
   \<Rightarrow> (pyexn + nat \<times> nat) \<times> sys" where
  "update_one X pfid correct_schedule_str site_key counts st =
     (case set_configuration X (JStr pfid) ''PricingSchedule'' correct_schedule_str st of
        (result, st1) \<Rightarrow>
     (case result of
        JObj res \<Rightarrow>
          (case (case dict_get res ''natsResponse'' (JObj []) of
                   JObj nats_response \<Rightarrow>
                     if dict_get nats_response ''status'' (JStr ''Unknown'') = JStr ''Accepted''
                     then ((Suc (fst counts), snd counts),
                           update_odd_ones_status X pfid ''accepted'' JNull site_key st1)
                     else ((fst counts, Suc (snd counts)),
                           update_odd_ones_status X pfid ''rejected''
                             (rejection_reason_of X nats_response) site_key st1)
                 | other \<Rightarrow>
                     ((fst counts, Suc (snd counts)),
                      update_odd_ones_status X pfid ''error''
                        (JStr (if truthy other then py_str X other else ''Unknown error''))
                        site_key st1)) of
             (counts', st2) \<Rightarrow>
               (Inr counts',
                if has_key res ''error''
                then update_odd_ones_status X pfid ''error'' (dict_get res ''error'' JNull) site_key st2
                else st2))
      | _ \<Rightarrow> (Inl AttributeError, st1)))"

fun update_all ::
  "world \<Rightarrow> string list \<Rightarrow> string \<Rightarrow> string option \<Rightarrow> nat \<times> nat \<Rightarrow> sys
   \<Rightarrow> (pyexn + nat \<times> nat) \<times> sys" where
  "update_all X [] correct_schedule_str site_key counts st = (Inr counts, st)"
| "update_all X (pfid # rest) correct_schedule_str site_key counts st =
     (case update_one X pfid correct_schedule_str site_key counts st of
        (Inl e, st') \<Rightarrow> (Inl e, st')
      | (Inr counts', st') \<Rightarrow> update_all X rest correct_schedule_str site_key counts' st')"

text \<open>
  \<^verbatim>\<open>get_correct_schedule\<close> and \<^verbatim>\<open>prompt_update_odd_ones\<close>. The operator confirms with
  \<^verbatim>\<open>yes\<close> or \<^verbatim>\<open>y\<close>, in any case and with blanks around it.
\<close>

definition default_schedule :: json where
  "default_schedule =
     JArr (map (\<lambda>t. JObj [(''t'', JInt t), (''f'', JFloat (1 / 2))]) [0, 4, 8, 16, 20])"

definition get_correct_schedule :: "scan_result list \<Rightarrow> json" where
  "get_correct_schedule correct_stations =
     (case correct_stations of
        [] \<Rightarrow> default_schedule
      | r # _ \<Rightarrow> if truthy (r_schedule r) then r_schedule r else default_schedule)"

definition confirms :: "string \<Rightarrow> bool" where
  "confirms line = (py_lower (py_strip line) \<in> set [''yes'', ''y''])"

definition prompt_update_odd_ones ::
  "world \<Rightarrow> scan_result list \<Rightarrow> scan_result list \<Rightarrow> bool \<Rightarrow> string option \<Rightarrow> string option
   \<Rightarrow> string option \<Rightarrow> string option \<Rightarrow> string option \<Rightarrow> sys \<Rightarrow> (pyexn + unit) \<times> sys" where
  "prompt_update_odd_ones X odd_ones correct_stations skip_prompt acn_id0 acc_id acg_id acs_id mode st =
     (let correct_schedule = get_correct_schedule correct_stations;
          correct_schedule_str = json_dumps X correct_schedule;
          acn_id = (if acn_id0 = None
                    then (case odd_ones of [] \<Rightarrow> acn_id0 | r # _ \<Rightarrow> r_acn_id r)
                    else acn_id0);
          st1 = save_odd_ones_out X odd_ones correct_schedule acn_id acc_id acg_id acs_id mode st;
          site_key = (if opt_truthy acn_id then get_site_key acn_id acc_id acg_id acs_id mode
                      else None)
      in case (if skip_prompt then (Inr True, st1)
               else (case py_input st1 of
                       (Inl e, st2) \<Rightarrow> (Inl e, st2)
                     | (Inr line, st2) \<Rightarrow> (Inr (confirms line), st2))) of
           (Inl e, st2) \<Rightarrow> (Inl e, st2)
         | (Inr do_update, st2) \<Rightarrow>
             if do_update
             then (case update_all X (map r_pfid odd_ones) correct_schedule_str site_key (0, 0) st2 of
                     (Inl e, st3) \<Rightarrow> (Inl e, st3)
                   | (Inr _, st3) \<Rightarrow> (Inr (), st3))
             else (Inr (), st2))"

section \<open>Retry orchestrator\<close>

text \<open>
  \<^verbatim>\<open>main_retry_site(site_key)\<close>: the stations to retry are the pending ones, then the
  rejected ones, then the errored ones.
\<close>

definition to_retry :: "station list \<Rightarrow> station list" where
  "to_retry stations =
     filter (\<lambda>s. s_update_status s = ''pending'') stations @
     filter (\<lambda>s. s_update_status s = ''rejected'') stations @
     filter (\<lambda>s. s_update_status s = ''error'') stations"

definition main_retry_site :: "world \<Rightarrow> string \<Rightarrow> sys \<Rightarrow> (pyexn + unit) \<times> sys" where
  "main_retry_site X site_key st =
     (case map_of (load_all_odd_ones_out st) site_key of
        None \<Rightarrow> (Inr (), st)
      | Some site_data \<Rightarrow>
          if e_stations site_data = [] then (Inr (), st)
          else if to_retry (e_stations site_data) = []
          then (Inr (), remove_completed_site site_key st)
          else (case py_input st of
                  (Inl e, st1) \<Rightarrow> (Inl e, st1)
                | (Inr line, st1) \<Rightarrow>
                    if \<not> confirms line then (Inr (), st1)
                    else (case update_all X (map s_pfid (to_retry (e_stations site_data)))
                                 (json_dumps X (e_correct_schedule site_data))
                                 (Some site_key) (0, 0) st1 of
                            (Inl e, st2) \<Rightarrow> (Inl e, st2)
                          | (Inr counts, st2) \<Rightarrow>
                              (Inr (), if snd counts = 0 then remove_completed_site site_key st2
                                       else st2))))"

section \<open>Sweep and entry point\<close>

text \<open>
  The loop of \<^verbatim>\<open>main_pfid\<close> over the level-2 identifiers of a level-1 scope: a completed
  one is skipped, any other is scanned, appended to the completed ones, and the progress file
  is written.
\<close>

fun sweep_accs ::
  "world \<Rightarrow> string option \<Rightarrow> string list \<Rightarrow> string list \<Rightarrow> scan_result list \<Rightarrow> progress \<Rightarrow> sys
   \<Rightarrow> (pyexn + scan_result list) \<times> sys" where
  "sweep_accs X acn [] completed_accs all_results progress st = (Inr all_results, st)"
| "sweep_accs X acn (acc_id # rest) completed_accs all_results progress st =
     (if acc_id \<in> set completed_accs
      then sweep_accs X acn rest completed_accs all_results progress st
      else (case process_stations X acn (Some acc_id) None None (Some all_results) st of
              (Inl e, st1) \<Rightarrow> (Inl e, st1)
            | (Inr results, st1) \<Rightarrow>
                (let completed = completed_accs @ [acc_id];
                     progress' = progress\<lparr>p_completed_accs := Some completed,
                                            p_results := Some results\<rparr>
                 in sweep_accs X acn rest completed results progress'
                      (save_progress progress' st1))))"

text \<open>
  \<^verbatim>\<open>print_results\<close> returns the deviating and the conforming results. The end of
  \<^verbatim>\<open>main_pfid\<close>: offer the update when there are deviating stations, then delete the
  progress file.
\<close>

definition print_results :: "scan_result list \<Rightarrow> scan_result list \<times> scan_result list" where
  "print_results results =
     (filter (\<lambda>r. r_all_correct r = Some False) results,
      filter (\<lambda>r. r_all_correct r = Some True) results)"

definition finish_pfid ::
  "world \<Rightarrow> pfid_info \<Rightarrow> scan_result list \<Rightarrow> sys \<Rightarrow> (pyexn + unit) \<times> sys" where
  "finish_pfid X pfid_info results st =
     (case print_results results of
        (odd_ones, correct) \<Rightarrow>
          (case (if odd_ones \<noteq> []
                 then prompt_update_odd_ones X odd_ones correct False (pi_acn pfid_info)
                        (pi_acc pfid_info) (pi_acg pfid_info) (pi_acs pfid_info) (pi_mode pfid_info) st
                 else (Inr (), st)) of
             (Inl e, st1) \<Rightarrow> (Inl e, st1)
           | (Inr _, st1) \<Rightarrow> (Inr (), delete_progress st1)))"

definition main_pfid ::
  "world \<Rightarrow> pfid_info \<Rightarrow> progress option \<Rightarrow> sys \<Rightarrow> (pyexn + unit) \<times> sys" where
  "main_pfid X pfid_info resume_progress st =
     (let acn = pi_acn pfid_info; acc = pi_acc pfid_info; acg = pi_acg pfid_info;
          acs = pi_acs pfid_info; mode = pi_mode pfid_info
      in if mode = Some ''acn-only''
         then (case get_site_data X st of
                 (Inl e, st1) \<Rightarrow> (Inl e, st1)
               | (Inr site_data, st1) \<Rightarrow>
                   (let accs = get_accs_for_acn site_data acn
                    in if accs = [] then (Inl (SystemExit 1), st1)
                       else
                       (let resumed = (case resume_progress of
                                         None \<Rightarrow> False
                                       | Some rp \<Rightarrow> p_acn_id rp = acn);
                            completed_accs = (case resume_progress of
                                                None \<Rightarrow> []
                                              | Some rp \<Rightarrow>
                                                  if resumed then or_empty (p_completed_accs rp)
                                                  else []);
                            all_results = (case resume_progress of
                                             None \<Rightarrow> []
                                           | Some rp \<Rightarrow>
                                               if resumed then or_empty (p_results rp) else [])
                        in case (case resume_progress of
                                   None \<Rightarrow> (case now X st1 of (t, st2) \<Rightarrow> (Some t, st2))
                                 | Some rp \<Rightarrow> (p_started_at rp, st1)) of
                             (started_at, st2) \<Rightarrow>
                               (let progress =
                                      \<lparr>p_mode = Some ''acn-only'', p_acn_id = acn,
                                       p_acc_id = None, p_acg_id = None, p_acs_id = None,
                                       p_total_accs = Some (length accs),
                                       p_completed_accs = Some completed_accs,
                                       p_results = Some all_results,
                                       p_started_at = started_at\<rparr>
                                in case sweep_accs X acn accs completed_accs all_results
                                          progress st2 of
                                     (Inl e, st3) \<Rightarrow> (Inl e, st3)
                                   | (Inr results, st3) \<Rightarrow>
                                       finish_pfid X pfid_info results st3))))
         else (case now X st of
                 (t, st1) \<Rightarrow>
                   (let progress =
                          \<lparr>p_mode = mode, p_acn_id = acn, p_acc_id = acc, p_acg_id = acg,
                           p_acs_id = acs, p_total_accs = None, p_completed_accs = None,
                           p_results = None, p_started_at = Some t\<rparr>
                    in case process_stations X acn acc acg acs None (save_progress progress st1) of
                         (Inl e, st2) \<Rightarrow> (Inl e, st2)
                       | (Inr results, st2) \<Rightarrow> finish_pfid X pfid_info results st2)))"

text \<open>
  \<^verbatim>\<open>check_resume_progress\<close>, and the validation \<^verbatim>\<open>main\<close> applies to what it returns.
\<close>

definition check_resume_progress :: "sys \<Rightarrow> (pyexn + progress option) \<times> sys" where
  "check_resume_progress st =
     (case load_progress st of
        None \<Rightarrow> (Inr None, st)
      | Some progress \<Rightarrow>
          (case py_input st of
             (Inl e, st1) \<Rightarrow> (Inl e, st1)
           | (Inr line, st1) \<Rightarrow>
               if confirms line then (Inr (Some progress), st1)
               else (Inr None, delete_progress st1)))"

definition resume_for :: "pfid_info \<Rightarrow> sys \<Rightarrow> (pyexn + progress option) \<times> sys" where
  "resume_for pfid_info st =
     (if pi_mode pfid_info = Some ''acn-only''
      then (case check_resume_progress st of
              (Inl e, st1) \<Rightarrow> (Inl e, st1)
            | (Inr None, st1) \<Rightarrow> (Inr None, st1)
            | (Inr (Some rp), st1) \<Rightarrow>
                if p_acn_id rp \<noteq> pi_acn pfid_info then (Inr None, delete_progress st1)
                else if p_mode rp \<noteq> Some ''acn-only'' then (Inr None, delete_progress st1)
                else (Inr (Some rp), st1))
      else (Inr None, st))"

text \<open>
  \<^verbatim>\<open>main\<close>, with \<^verbatim>\<open>sys.argv\<close> as \<open>argv\<close>. The interactive menu of the retry mode
  (\<^verbatim>\<open>main_retry\<close>) is passed in as \<open>main_retry\<close>.
\<close>

definition main ::
  "world \<Rightarrow> (sys \<Rightarrow> (pyexn + unit) \<times> sys) \<Rightarrow> string list \<Rightarrow> sys \<Rightarrow> (pyexn + unit) \<times> sys" where
  "main X main_retry argv st =
     (if ''--retry'' \<in> set argv
      then (case get_jwt X st of
              (False, st1) \<Rightarrow> (Inl (SystemExit 1), st1)
            | (True, st1) \<Rightarrow> main_retry st1)
      else if length argv < 2 then (Inl (SystemExit 1), st)
      else
        (let pfid_args = filter (\<lambda>arg. \<not> startswith arg ''--'') (tl argv);
             pfid_info = parse_pfid_input pfid_args
         in if \<not> opt_truthy (pi_acn pfid_info) then (Inl (SystemExit 1), st)
            else (case resume_for pfid_info st of
                    (Inl e, st1) \<Rightarrow> (Inl e, st1)
                  | (Inr resume_progress, st1) \<Rightarrow>
                      (case get_jwt X st1 of
                         (False, st2) \<Rightarrow> (Inl (SystemExit 1), st2)
                       | (True, st2) \<Rightarrow> main_pfid X pfid_info resume_progress st2))))"

section \<open>Notions used in the statements\<close>

text \<open>No station of a list carries the identifier.\<close>

definition no_match :: "string \<Rightarrow> station list \<Rightarrow> bool" where
  "no_match pfid stations = list_all (\<lambda>s. s_pfid s \<noteq> pfid) stations"

text \<open>
  The entry \<^verbatim>\<open>save_odd_ones_out\<close> writes for a batch, given the mode and the identifiers
  it settled on, and the level-1 identifier it uses: the one passed in, else the first
  record's.
\<close>

definition saved_entry ::
  "world \<Rightarrow> sys \<Rightarrow> scan_result list \<Rightarrow> json \<Rightarrow> string \<Rightarrow> string option \<Rightarrow> string option
   \<Rightarrow> string option \<Rightarrow> string option \<Rightarrow> site_entry" where
  "saved_entry X st odd_ones correct_schedule mode acn_id acc_id acg_id acs_id =
     \<lparr>e_mode = mode, e_acn_id = acn_id, e_acc_id = acc_id, e_acg_id = acg_id,
      e_acs_id = acs_id, e_saved_at = now_iso X (ticks st),
      e_last_updated = now_iso X (Suc (ticks st)),
      e_correct_schedule = correct_schedule, e_stations = map station_of odd_ones\<rparr>"

definition first_acn :: "string option \<Rightarrow> scan_result list \<Rightarrow> string option" where
  "first_acn acn_id odd_ones =
     (if acn_id = None then (case odd_ones of [] \<Rightarrow> None | r # _ \<Rightarrow> r_acn_id r) else acn_id)"

text \<open>
  A clean token is non-empty and has neither whitespace nor a hyphen. \<open>level parts i\<close>
  is the \<open>i\<close>-th part when there is one, and \<open>mode_of_depth\<close> names the mode of a depth.
\<close>

definition clean_token :: "string \<Rightarrow> bool" where
  "clean_token x = (x \<noteq> [] \<and> list_all (\<lambda>c. \<not> is_space c \<and> c \<noteq> CHR ''-'') x)"

definition mode_of_depth :: "nat \<Rightarrow> string" where
  "mode_of_depth n =
     (if n = 1 then ''acn-only'' else if n = 2 then ''acn-acc''
      else if n = 3 then ''acn-acc-acg'' else ''acn-acc-acg-acs'')"

definition level :: "string list \<Rightarrow> nat \<Rightarrow> string option" where
  "level parts i = (if i \<le> length parts then Some (parts ! (i - 1)) else None)"

text \<open>
  What the ledger holds for a station of a scope: the status and the detail of the first
  record with the identifier. \<open>write_reply\<close> is how the corrective write that is issued
  next will end.
\<close>

definition station_status :: "sys \<Rightarrow> string \<Rightarrow> string \<Rightarrow> (string \<times> json) option" where
  "station_status st site_key pfid =
     (case map_of (load_all_odd_ones_out st) site_key of
        None \<Rightarrow> None
      | Some site_data \<Rightarrow>
          (case find (\<lambda>s. s_pfid s = pfid) (e_stations site_data) of
             None \<Rightarrow> None
           | Some s \<Rightarrow> Some (s_update_status s, s_rejection_reason s)))"

definition write_reply :: "world \<Rightarrow> sys \<Rightarrow> string \<Rightarrow> string \<Rightarrow> call_outcome" where
  "write_reply X st pfid correct_schedule_str =
     api_reply X (calls st) (SetConfiguration (JStr pfid) ''PricingSchedule'' correct_schedule_str)"

text \<open>
  A read fails when the call fails or its output is not JSON. \<open>station_result\<close> is the
  dict the scan loop appends for a station. The three calls of one round of the loop are the
  flag read, the enabling write and the schedule read; \<open>flag_calls\<close> are the calls of the
  flag phase, which writes unless the flag read as true.
\<close>

definition read_failed :: "call_outcome \<Rightarrow> bool" where
  "read_failed r = (case r of Parsed j \<Rightarrow> False | _ \<Rightarrow> True)"

definition pfid_segment :: "string \<Rightarrow> nat \<Rightarrow> string option" where
  "pfid_segment p i =
     (if length (py_split_on CHR ''-'' p) > i then Some (py_split_on CHR ''-'' p ! i) else None)"

definition station_result ::
  "string option \<Rightarrow> string option \<Rightarrow> string \<Rightarrow> json \<Rightarrow> bool option \<Rightarrow> json list \<Rightarrow> scan_result" where
  "station_result acn_id acc_id p schedule all_correct mismatches =
     \<lparr>r_pfid = p, r_acn_id = acn_id, r_acc_id = acc_id,
      r_acg_id = pfid_segment p 2, r_acs_id = pfid_segment p 3,
      r_schedule = schedule, r_enabled = True,
      r_all_correct = all_correct, r_mismatches = mismatches\<rparr>"

definition flag_read :: "string \<Rightarrow> call" where
  "flag_read p = GetConfiguration (JStr p) ''PricingScheduleEnable''"

definition flag_write :: "string \<Rightarrow> call" where
  "flag_write p = SetConfiguration (JStr p) ''PricingScheduleEnable'' ''true''"

definition schedule_read :: "string \<Rightarrow> call" where
  "schedule_read p = GetConfiguration (JStr p) ''PricingSchedule''"

definition flag_calls :: "string \<Rightarrow> bool option \<Rightarrow> call list" where
  "flag_calls p enabled =
     (if enabled = Some True then [flag_read p] else [flag_read p, flag_write p])"

text \<open>
  The level-2 identifiers a call log fetched station listings for, in order; the
  identifiers a sweep scans, given the completed ones (each is completed once scanned); the
  progress record with its completed identifiers and results replaced; and the calls a run
  added to the log.
\<close>

fun fetched :: "call list \<Rightarrow> string option list" where
  "fetched [] = []"
| "fetched (FetchStationData a b # cs) = b # fetched cs"
| "fetched (c # cs) = fetched cs"


definition checkpoint :: "progress \<Rightarrow> string list \<Rightarrow> scan_result list \<Rightarrow> progress" where
  "checkpoint pg completed results =
     pg\<lparr>p_completed_accs := Some completed, p_results := Some results\<rparr>"

definition new_calls :: "sys \<Rightarrow> sys \<Rightarrow> call list" where
  "new_calls st st' = drop (length (calls st)) (calls st')"



text \<open>
  The write of the stored schedule to a station of a ledger entry, and the state after the
  confirmed attempts of \<^verbatim>\<open>main_retry_site\<close>, before the removal check.
\<close>

definition write_schedule :: "world \<Rightarrow> site_entry \<Rightarrow> station \<Rightarrow> call" where
  "write_schedule X site_data s =
     SetConfiguration (JStr (s_pfid s)) ''PricingSchedule''
       (json_dumps X (e_correct_schedule site_data))"

definition after_attempts :: "world \<Rightarrow> string \<Rightarrow> site_entry \<Rightarrow> sys \<Rightarrow> sys" where
  "after_attempts X site_key site_data st =
     (if to_retry (e_stations site_data) = [] then st
      else snd (update_all X (map s_pfid (to_retry (e_stations site_data)))
                  (json_dumps X (e_correct_schedule site_data)) (Some site_key) (0, 0)
                  (snd (py_input st))))"

text \<open>
  A list of station records is shadowed when it holds a record that is not \<^verbatim>\<open>accepted\<close>
  and whose identifier is among \<open>seen\<close> or is carried by an earlier record of the list:
  a status update, which goes to the first record with an identifier, never reaches it.
  An entry keeps another up to a set of identifiers when it has the same station
  identifiers in the same order, the same records outside the set, and is shadowed when the
  other is.
\<close>

fun shadowed :: "string list \<Rightarrow> station list \<Rightarrow> bool" where
  "shadowed seen [] = False"
| "shadowed seen (s # rest) =
     ((s_pfid s \<in> set seen \<and> s_update_status s \<noteq> ''accepted'') \<or>
      shadowed (s_pfid s # seen) rest)"

definition keeps :: "string set \<Rightarrow> site_entry \<Rightarrow> site_entry \<Rightarrow> bool" where
  "keeps ps site site' =
     (map s_pfid (e_stations site') = map s_pfid (e_stations site) \<and>
      (\<forall>s \<in> set (e_stations site). s_pfid s \<notin> ps \<longrightarrow> s \<in> set (e_stations site')) \<and>
      (shadowed [] (e_stations site) \<longrightarrow> shadowed [] (e_stations site')))"

section \<open>Example data\<close>

text \<open>Concrete stations, ledgers, states and worlds on which the theorems below are run.\<close>

definition ex_station :: "string \<Rightarrow> string \<Rightarrow> station" where
  "ex_station pfid status =
     \<lparr>s_pfid = pfid, s_acn_id = Some ''0051'', s_acc_id = Some ''09'',
      s_acg_id = Some ''02'', s_acs_id = Some ''01'',
      s_current_schedule = JArr [JObj [(''t'', JInt 0), (''f'', JFloat (3 / 10))]],
      s_mismatches = [JObj [(''t'', JInt 0), (''f'', JFloat (3 / 10))]],
      s_update_status = status, s_rejection_reason = JNull, s_last_attempt = None\<rparr>"

definition ex_site :: "station list \<Rightarrow> site_entry" where
  "ex_site stations =
     \<lparr>e_mode = ''acn-acc'', e_acn_id = Some ''0051'', e_acc_id = Some ''09'',
      e_acg_id = None, e_acs_id = None, e_saved_at = ''t0'', e_last_updated = ''t1'',
      e_correct_schedule = JArr [JObj [(''t'', JInt 0), (''f'', JFloat (1 / 2))]],
      e_stations = stations\<rparr>"

definition ex_state :: "ledger \<Rightarrow> string list \<Rightarrow> sys" where
  "ex_state l lines =
     \<lparr>calls = [], ticks = 0, stdin = lines, progress_hist = [], ledger_hist = [l]\<rparr>"

definition ex_ledger :: ledger where
  "ex_ledger =
     [(''0051-09'', ex_site [ex_station ''0051-09-02-01'' ''accepted'',
                            ex_station ''0051-09-02-02'' ''accepted'']),
      (''0051-12'', ex_site [ex_station ''0051-12-01-01'' ''accepted'',
                            ex_station ''0051-12-01-02'' ''rejected''])]"

definition ex_ledger_shared :: ledger where
  "ex_ledger_shared =
     [(''0051-12'', ex_site [ex_station ''0051-12-01-02'' ''accepted'',
                            ex_station ''0051-12-01-02'' ''pending''])]"

definition ex_clock :: "nat \<Rightarrow> string" where
  "ex_clock n = (if n = 0 then ''t0'' else if n = 1 then ''t1'' else if n = 2 then ''t2''
                 else if n = 3 then ''t3'' else ''t4'')"

definition ex_world :: "(call list \<Rightarrow> call \<Rightarrow> call_outcome) \<Rightarrow> world" where
  "ex_world api =
     \<lparr>api_reply = api, jwt_reply = (\<lambda>h. True), site_data_reply = (\<lambda>h. None),
      now_iso = ex_clock,
      json_loads = (\<lambda>s. if s = ''[conforming]''
                          then Some (JArr [JObj [(''t'', JInt 0), (''f'', JFloat (1 / 2))]])
                          else None),
      json_dumps = (\<lambda>j. ''<json>''), py_str = (\<lambda>j. ''<str>'')\<rparr>"

definition ex_result :: "string \<Rightarrow> string \<Rightarrow> json \<Rightarrow> scan_result" where
  "ex_result pfid acc schedule =
     \<lparr>r_pfid = pfid, r_acn_id = Some ''0051'', r_acc_id = Some acc,
      r_acg_id = Some ''02'', r_acs_id = Some ''01'',
      r_schedule = schedule, r_enabled = True,
      r_all_correct = Some False,
      r_mismatches = [JObj [(''t'', JInt 0), (''f'', JFloat (3 / 10))]]\<rparr>"

definition ex_deviating :: json where
  "ex_deviating = JArr [JObj [(''t'', JInt 0), (''f'', JFloat (3 / 10))]]"

definition ex_listing :: json where
  "ex_listing =
     JObj [(''a'', JObj [(''pfid'', JStr ''0051-09-02-1''), (''evse_type'', JStr ''LiteON DC'')]),
           (''b'', JObj [(''pfid'', JStr ''0051-09-02-10''), (''evse_type'', JStr ''LiteON DC'')]),
           (''c'', JObj [(''pfid'', JStr ''0051-09-03-1''), (''evse_type'', JStr ''LiteON DC'')])]"

definition ex_api_listing :: "call list \<Rightarrow> call \<Rightarrow> call_outcome" where
  "ex_api_listing h c =
     (case c of FetchStationData a b \<Rightarrow> Parsed ex_listing | _ \<Rightarrow> JSONDecodeError)"

definition ex_api_write :: "call_outcome \<Rightarrow> call list \<Rightarrow> call \<Rightarrow> call_outcome" where
  "ex_api_write reply h c = (case c of SetConfiguration p k v \<Rightarrow> reply | _ \<Rightarrow> JSONDecodeError)"

definition ex_rejected :: json where
  "ex_rejected =
     JObj [(''natsResponse'', JObj [(''status'', JStr ''Rejected''), (''reason'', JStr ''busy'')])]"

definition ex_accepted_with_error :: json where
  "ex_accepted_with_error =
     JObj [(''natsResponse'', JObj [(''status'', JStr ''Accepted'')]),
           (''error'', JStr ''gateway timeout'')]"

definition ex_config :: "string \<Rightarrow> string \<Rightarrow> json" where
  "ex_config k v =
     JObj [(''natsResponse'',
            JObj [(''configuration_key'', JArr [JObj [(''key'', JStr k), (''value'', JStr v)]])])]"

definition ex_api_scan :: "call list \<Rightarrow> call \<Rightarrow> call_outcome" where
  "ex_api_scan h c =
     (case c of
        GetConfiguration p k \<Rightarrow>
          if p = JStr ''0051-09-02-01'' then CalledProcessError ''exit status 28''
          else if k = ''PricingScheduleEnable'' then Parsed (ex_config k ''true'')
          else Parsed (ex_config k ''[conforming]'')
      | _ \<Rightarrow> JSONDecodeError)"

definition ex_api_flag_down :: "call list \<Rightarrow> call \<Rightarrow> call_outcome" where
  "ex_api_flag_down h c =
     (case c of
        GetConfiguration p k \<Rightarrow>
          if k = ''PricingScheduleEnable'' then CalledProcessError ''exit status 28''
          else Parsed (ex_config k ''[conforming]'')
      | _ \<Rightarrow> JSONDecodeError)"









section \<open>Classification of a schedule, proved\<close>

lemma check_entries_objects:
  "check_entries (map JObj es) acc = Inr (acc @ map mismatch_of (filter deviates es))"
  by (induction es arbitrary: acc) (simp_all add: deviates_def mismatch_of_def Let_def)

text \<open>
  C1 (as amended). A schedule that is absent (\<^verbatim>\<open>None\<close>) or an empty list is indeterminate
  with no mismatches. A non-empty list of entries is conforming iff no entry's factor differs
  from 0.5 and deviating iff some entry's does, and the mismatch list is exactly the
  deviating entries, in order, each recorded with its time offset and factor.
\<close>

theorem check_schedule_values_classifies:
  "check_schedule_values JNull = Inr (None, []) \<and>
   check_schedule_values (JArr (map JObj es)) =
     Inr (if es = [] then None else Some (filter deviates es = []),
          map mismatch_of (filter deviates es)) \<and>
   (verdict_of (fst (projr (check_schedule_values (JArr (map JObj es))))) = Indeterminate
      \<longleftrightarrow> es = []) \<and>
   (verdict_of (fst (projr (check_schedule_values (JArr (map JObj es))))) = Conforming
      \<longleftrightarrow> es \<noteq> [] \<and> list_all (\<lambda>kvs. \<not> deviates kvs) es) \<and>
   (verdict_of (fst (projr (check_schedule_values (JArr (map JObj es))))) = Deviating
      \<longleftrightarrow> list_ex deviates es)"
proof -
  have run: "check_schedule_values (JArr (map JObj es)) =
      Inr (if es = [] then None else Some (filter deviates es = []),
           map mismatch_of (filter deviates es))"
    using check_entries_objects [of es "[]"]
    by (simp add: check_schedule_values_def)
  have none_dev: "filter deviates es = [] \<longleftrightarrow> list_all (\<lambda>kvs. \<not> deviates kvs) es"
    by (simp add: filter_empty_conv list_all_iff)
  have some_dev: "filter deviates es \<noteq> [] \<longleftrightarrow> list_ex deviates es"
    by (simp add: filter_empty_conv list_ex_iff)
  have absent: "check_schedule_values JNull = Inr (None, [])"
    by (simp add: check_schedule_values_def)
  show ?thesis
  proof (cases "es = []")
    case True
    with run absent show ?thesis by simp
  next
    case False
    show ?thesis
    proof (cases "filter deviates es = []")
      case True
      with False run absent none_dev some_dev show ?thesis by simp
    next
      case nonempty: False
      with False run absent some_dev none_dev show ?thesis by simp
    qed
  qed
qed

theorem check_schedule_values_classifies_witness:
  "check_schedule_values (JArr [JObj [(''t'', JInt 0), (''f'', JFloat (1 / 2))],
                               JObj [(''t'', JInt 4), (''f'', JFloat (3 / 10))]]) =
     Inr (Some False, [JObj [(''t'', JInt 4), (''f'', JFloat (3 / 10))]])"
  using check_schedule_values_classifies
    [of "[[(''t'', JInt 0), (''f'', JFloat (1 / 2))], [(''t'', JInt 4), (''f'', JFloat (3 / 10))]]"]
  by (simp add: deviates_def mismatch_of_def dict_get_def py_ne_float_def expected_f_def)

text \<open>
  The claim as first stated fails on the empty schedule: it is present and no entry of it
  differs from 0.5, yet the verdict is indeterminate, not conforming.
\<close>

theorem check_schedule_values_empty_counterexample:
  "JArr [] \<noteq> JNull \<and>
   list_all (\<lambda>kvs. \<not> deviates kvs) [] \<and>
   verdict_of (fst (projr (check_schedule_values (JArr [])))) = Indeterminate \<and>
   verdict_of (fst (projr (check_schedule_values (JArr [])))) \<noteq> Conforming"
  by (simp add: check_schedule_values_def)

section \<open>Checkpointed sweep\<close>












lemma checkpoint_again [simp]:
  "(checkpoint pg c r)\<lparr>p_completed_accs := Some c', p_results := Some r'\<rparr> = checkpoint pg c' r'"
  by (simp add: checkpoint_def)


lemma load_progress_saved [simp]: "load_progress (save_progress p st) = Some p"
  by (simp add: load_progress_def save_progress_def)



lemma update_odd_ones_status_frame [simp]:
  "calls (update_odd_ones_status X pfid status reason site_key st) = calls st"
  "progress_hist (update_odd_ones_status X pfid status reason site_key st) = progress_hist st"
  "stdin (update_odd_ones_status X pfid status reason site_key st) = stdin st"
  by (simp_all add: update_odd_ones_status_def Let_def save_all_odd_ones_out_def
      split: option.splits)

lemma update_one_frame:
  "calls (snd (update_one X pfid str site_key counts st)) =
     calls st @ [SetConfiguration (JStr pfid) ''PricingSchedule'' str] \<and>
   progress_hist (snd (update_one X pfid str site_key counts st)) = progress_hist st \<and>
   stdin (snd (update_one X pfid str site_key counts st)) = stdin st"
proof -
  let ?c = "SetConfiguration (JStr pfid) ''PricingSchedule'' str"
  let ?res = "call_result (api_reply X (calls st) ?c)"
  have set: "set_configuration X (JStr pfid) ''PricingSchedule'' str st =
      (?res, st\<lparr>calls := calls st @ [?c]\<rparr>)"
    by (simp add: set_configuration_def api_call_def)
  show ?thesis
  proof (cases ?res)
    case (JObj res)
    then show ?thesis
      by (cases "dict_get res ''natsResponse'' (JObj [])") (simp_all add: update_one_def set)
  qed (simp_all add: update_one_def set)
qed

lemma update_all_frame:
  "progress_hist (snd (update_all X pfids str site_key counts st)) = progress_hist st \<and>
   stdin (snd (update_all X pfids str site_key counts st)) = stdin st \<and>
   (\<exists>cs. calls (snd (update_all X pfids str site_key counts st)) = calls st @ cs \<and>
         fetched cs = []) \<and>
   (\<forall>counts'. fst (update_all X pfids str site_key counts st) = Inr counts' \<longrightarrow>
      calls (snd (update_all X pfids str site_key counts st)) =
        calls st @ map (\<lambda>p. SetConfiguration (JStr p) ''PricingSchedule'' str) pfids)"
proof (induction pfids arbitrary: counts st)
  case Nil
  show ?case by simp
next
  case (Cons p pfids)
  obtain r st1 where u: "update_one X p str site_key counts st = (r, st1)"
    by (cases "update_one X p str site_key counts st")
  have f: "calls st1 = calls st @ [SetConfiguration (JStr p) ''PricingSchedule'' str]"
    "progress_hist st1 = progress_hist st" "stdin st1 = stdin st"
    using update_one_frame [of X p str site_key counts st] u by simp_all
  show ?case
  proof (cases r)
    case (Inl e)
    with u f show ?thesis by simp
  next
    case (Inr counts1)
    from Cons.IH [of counts1 st1] obtain cs where
      cs: "calls (snd (update_all X pfids str site_key counts1 st1)) = calls st1 @ cs"
      "fetched cs = []" by blast
    have "\<exists>cs'. calls (snd (update_all X (p # pfids) str site_key counts st)) = calls st @ cs' \<and>
        fetched cs' = []"
      using u Inr f cs
      by (intro exI [of _ "SetConfiguration (JStr p) ''PricingSchedule'' str # cs"]) simp
    then show ?thesis
      using u Inr f Cons.IH [of counts1 st1] by simp
  qed
qed

lemma save_odd_ones_out_frame [simp]:
  "calls (save_odd_ones_out X odd_ones sched acn acc acg acs mode st) = calls st"
  "progress_hist (save_odd_ones_out X odd_ones sched acn acc acg acs mode st) = progress_hist st"
  "stdin (save_odd_ones_out X odd_ones sched acn acc acg acs mode st) = stdin st"
  by (simp_all add: save_odd_ones_out_def Let_def save_all_odd_ones_out_def)




lemma load_progress_deleted [simp]: "load_progress (delete_progress st) = None"
  by (simp add: delete_progress_def load_progress_def)

lemma delete_progress_calls [simp]: "calls (delete_progress st) = calls st"
  by (simp add: delete_progress_def)















section \<open>Outcome of one write attempt\<close>

lemma update_station_find:
  "find (\<lambda>s. s_pfid s = pfid) stations = Some s \<Longrightarrow>
   \<exists>stations'. update_station pfid status reason t stations = Some stations' \<and>
     find (\<lambda>s. s_pfid s = pfid) stations' =
       Some (s\<lparr>s_update_status := status, s_rejection_reason := reason, s_last_attempt := Some t\<rparr>)"
  by (induction stations) (auto split: if_splits)

lemma update_tracked:
  assumes key: "site_key \<noteq> []" and tracked: "station_status st site_key pfid \<noteq> None"
  shows "station_status (update_odd_ones_status X pfid status reason (Some site_key) st)
           site_key pfid = Some (status, reason) \<and>
         length (ledger_hist (update_odd_ones_status X pfid status reason (Some site_key) st)) =
           Suc (length (ledger_hist st)) \<and>
         calls (update_odd_ones_status X pfid status reason (Some site_key) st) = calls st"
proof -
  from tracked obtain site_data s where
    site: "map_of (load_all_odd_ones_out st) site_key = Some site_data" and
    s: "find (\<lambda>s. s_pfid s = pfid) (e_stations site_data) = Some s"
    by (auto simp: station_status_def split: option.splits)
  from update_station_find [OF s, of status reason "now_iso X (ticks st)"]
  obtain stations' where
    u: "update_station pfid status reason (now_iso X (ticks st)) (e_stations site_data) =
          Some stations'" and
    f: "find (\<lambda>s. s_pfid s = pfid) stations' =
          Some (s\<lparr>s_update_status := status, s_rejection_reason := reason,
                  s_last_attempt := Some (now_iso X (ticks st))\<rparr>)"
    by blast
  have run: "update_odd_ones_status X pfid status reason (Some site_key) st =
     save_all_odd_ones_out
       (AList.update site_key
          (site_data\<lparr>e_stations := stations', e_last_updated := now_iso X (Suc (ticks st))\<rparr>)
          (load_all_odd_ones_out st))
       (st\<lparr>ticks := Suc (Suc (ticks st))\<rparr>)"
    using key site u by (simp add: update_odd_ones_status_def opt_truthy_def py_fmt_def Let_def)
  show ?thesis
    unfolding run using f
    by (simp add: station_status_def save_all_odd_ones_out_def load_all_odd_ones_out_def
        update_conv')
qed

lemma station_status_calls [simp]:
  "station_status (st\<lparr>calls := cs\<rparr>) site_key pfid = station_status st site_key pfid"
  by (simp add: station_status_def load_all_odd_ones_out_def)

text \<open>
  C3 (as amended). One write attempt on a station that the scope's ledger entry holds. A
  call-level failure ends in status \<^verbatim>\<open>error\<close> with the error text as detail. A response
  without a top-level \<^verbatim>\<open>error\<close> field whose \<^verbatim>\<open>natsResponse\<close> is an object ends in
  \<^verbatim>\<open>accepted\<close> when the status label is exactly \<^verbatim>\<open>Accepted\<close>, and otherwise in
  \<^verbatim>\<open>rejected\<close> with the detail taken from the \<^verbatim>\<open>error\<close> field, else the \<^verbatim>\<open>message\<close>
  field, else the \<^verbatim>\<open>reason\<close> field, else the serialized response. A response that has a
  top-level \<^verbatim>\<open>error\<close> field ends in \<^verbatim>\<open>error\<close> with that field as detail, whatever its
  status label. In each of these cases the ledger file is written at least once.
\<close>

theorem update_one_classifies:
  assumes key: "site_key \<noteq> []" and tracked: "station_status st site_key pfid \<noteq> None"
  shows
  "(\<forall>e. write_reply X st pfid str = CalledProcessError e \<longrightarrow>
      fst (update_one X pfid str (Some site_key) counts st) = Inr (fst counts, Suc (snd counts)) \<and>
      station_status (snd (update_one X pfid str (Some site_key) counts st)) site_key pfid =
        Some (''error'', JStr e)) \<and>
   (write_reply X st pfid str = JSONDecodeError \<longrightarrow>
      fst (update_one X pfid str (Some site_key) counts st) = Inr (fst counts, Suc (snd counts)) \<and>
      station_status (snd (update_one X pfid str (Some site_key) counts st)) site_key pfid =
        Some (''error'', JStr ''Invalid JSON response'')) \<and>
   (\<forall>res nats. write_reply X st pfid str = Parsed (JObj res) \<and> \<not> has_key res ''error'' \<and>
      dict_get res ''natsResponse'' (JObj []) = JObj nats \<longrightarrow>
      (dict_get nats ''status'' (JStr ''Unknown'') = JStr ''Accepted'' \<longrightarrow>
         fst (update_one X pfid str (Some site_key) counts st) = Inr (Suc (fst counts), snd counts) \<and>
         station_status (snd (update_one X pfid str (Some site_key) counts st)) site_key pfid =
           Some (''accepted'', JNull)) \<and>
      (dict_get nats ''status'' (JStr ''Unknown'') \<noteq> JStr ''Accepted'' \<longrightarrow>
         fst (update_one X pfid str (Some site_key) counts st) = Inr (fst counts, Suc (snd counts)) \<and>
         station_status (snd (update_one X pfid str (Some site_key) counts st)) site_key pfid =
           Some (''rejected'',
                 if has_key nats ''error'' then dict_get nats ''error'' JNull
                 else if has_key nats ''message'' then dict_get nats ''message'' JNull
                 else if has_key nats ''reason'' then dict_get nats ''reason'' JNull
                 else JStr (json_dumps X (JObj nats))))) \<and>
   (\<forall>res. write_reply X st pfid str = Parsed (JObj res) \<and> has_key res ''error'' \<longrightarrow>
      station_status (snd (update_one X pfid str (Some site_key) counts st)) site_key pfid =
        Some (''error'', dict_get res ''error'' JNull)) \<and>
   ((\<exists>e. write_reply X st pfid str = CalledProcessError e) \<or>
    write_reply X st pfid str = JSONDecodeError \<or>
    (\<exists>res. write_reply X st pfid str = Parsed (JObj res)) \<longrightarrow>
      length (ledger_hist st) <
        length (ledger_hist (snd (update_one X pfid str (Some site_key) counts st))))"
proof -
  define st1 where "st1 = st\<lparr>calls := calls st @ [SetConfiguration (JStr pfid) ''PricingSchedule'' str]\<rparr>"
  have t1: "station_status st1 site_key pfid \<noteq> None"
    using tracked by (simp add: st1_def)
  have len1: "length (ledger_hist st1) = length (ledger_hist st)"
    by (simp add: st1_def)
  note u1 = update_tracked [OF key t1]
  have t2: "\<And>status reason.
      station_status (update_odd_ones_status X pfid status reason (Some site_key) st1) site_key pfid
        \<noteq> None"
    using u1 by simp
  note u2 = update_tracked [OF key t2]
  have set: "set_configuration X (JStr pfid) ''PricingSchedule'' str st =
      (call_result (write_reply X st pfid str), st1)"
    by (simp add: set_configuration_def api_call_def write_reply_def st1_def)
  show ?thesis
    apply (intro conjI allI impI)
    subgoal for e
      using u1 u2 by (simp add: update_one_def set call_result_def has_key_def dict_get_def
          rejection_reason_of_def)
    subgoal for e
      using u1 u2 by (simp add: update_one_def set call_result_def has_key_def dict_get_def
          rejection_reason_of_def)
    subgoal
      using u1 u2 by (simp add: update_one_def set call_result_def has_key_def dict_get_def
          rejection_reason_of_def)
    subgoal
      using u1 u2 by (simp add: update_one_def set call_result_def has_key_def dict_get_def
          rejection_reason_of_def)
    subgoal for res nats
      using u1 by (simp add: update_one_def set call_result_def)
    subgoal for res nats
      using u1 by (simp add: update_one_def set call_result_def)
    subgoal for res nats
      using u1 by (simp add: update_one_def set call_result_def)
    subgoal for res nats
      using u1 by (simp add: update_one_def set call_result_def rejection_reason_of_def)
    subgoal for res
      using u1 u2 by (simp add: update_one_def set call_result_def split: json.splits)
    subgoal
      using u1 u2 len1
      by (auto simp: update_one_def set call_result_def has_key_def dict_get_def
          rejection_reason_of_def split: json.splits)
    done
qed

lemmas ex_eval =
  ex_state_def ex_ledger_def ex_site_def ex_station_def ex_world_def ex_clock_def
  ex_api_write_def station_status_def load_all_odd_ones_out_def save_all_odd_ones_out_def
  write_reply_def has_key_def dict_get_def

theorem update_one_classifies_witness:
  "fst (update_one (ex_world (ex_api_write (Parsed ex_rejected))) ''0051-12-01-02'' ''<json>''
          (Some ''0051-12'') (0, 0) (ex_state ex_ledger [])) = Inr (0, 1) \<and>
   station_status
     (snd (update_one (ex_world (ex_api_write (Parsed ex_rejected))) ''0051-12-01-02'' ''<json>''
             (Some ''0051-12'') (0, 0) (ex_state ex_ledger [])))
     ''0051-12'' ''0051-12-01-02'' = Some (''rejected'', JStr ''busy'') \<and>
   station_status
     (snd (update_one (ex_world (ex_api_write (CalledProcessError ''exit status 7'')))
             ''0051-12-01-02'' ''<json>'' (Some ''0051-12'') (0, 0) (ex_state ex_ledger [])))
     ''0051-12'' ''0051-12-01-02'' = Some (''error'', JStr ''exit status 7'')"
proof -
  have key: "''0051-12'' \<noteq> []" by simp
  have tracked: "station_status (ex_state ex_ledger []) ''0051-12'' ''0051-12-01-02'' \<noteq> None"
    by (simp add: ex_eval)
  note t = update_one_classifies [OF key tracked, where str = "''<json>''" and counts = "(0, 0)"]
  have rej: "write_reply (ex_world (ex_api_write (Parsed ex_rejected))) (ex_state ex_ledger [])
      ''0051-12-01-02'' ''<json>'' =
      Parsed (JObj [(''natsResponse'', JObj [(''status'', JStr ''Rejected''), (''reason'', JStr ''busy'')])])"
    by (simp add: ex_eval ex_rejected_def)
  have a: "fst (update_one (ex_world (ex_api_write (Parsed ex_rejected))) ''0051-12-01-02'' ''<json>''
          (Some ''0051-12'') (0, 0) (ex_state ex_ledger [])) = Inr (0, 1) \<and>
   station_status
     (snd (update_one (ex_world (ex_api_write (Parsed ex_rejected))) ''0051-12-01-02'' ''<json>''
             (Some ''0051-12'') (0, 0) (ex_state ex_ledger [])))
     ''0051-12'' ''0051-12-01-02'' = Some (''rejected'', JStr ''busy'')"
    using t [where X = "ex_world (ex_api_write (Parsed ex_rejected))",
        THEN conjunct2, THEN conjunct2, THEN conjunct1, rule_format,
        of "[(''natsResponse'', JObj [(''status'', JStr ''Rejected''), (''reason'', JStr ''busy'')])]"
           "[(''status'', JStr ''Rejected''), (''reason'', JStr ''busy'')]", THEN conjunct2]
      rej
    by (simp add: has_key_def dict_get_def)
  have b: "station_status
     (snd (update_one (ex_world (ex_api_write (CalledProcessError ''exit status 7'')))
             ''0051-12-01-02'' ''<json>'' (Some ''0051-12'') (0, 0) (ex_state ex_ledger [])))
     ''0051-12'' ''0051-12-01-02'' = Some (''error'', JStr ''exit status 7'')"
    using t [where X = "ex_world (ex_api_write (CalledProcessError ''exit status 7''))",
        THEN conjunct1, rule_format, of "''exit status 7''"]
    by (simp add: write_reply_def ex_world_def ex_api_write_def)
  show ?thesis using a b by simp
qed


text \<open>
  The claim as first stated fails on a response whose status label is \<^verbatim>\<open>Accepted\<close> and
  which also has a top-level \<^verbatim>\<open>error\<close> field: the station ends in \<^verbatim>\<open>error\<close>, not
  \<^verbatim>\<open>accepted\<close>.
\<close>

theorem update_one_accepted_overridden_counterexample:
  "write_reply (ex_world (ex_api_write (Parsed ex_accepted_with_error))) (ex_state ex_ledger [])
      ''0051-12-01-02'' ''<json>'' =
     Parsed (JObj [(''natsResponse'', JObj [(''status'', JStr ''Accepted'')]),
                   (''error'', JStr ''gateway timeout'')]) \<and>
   station_status
     (snd (update_one (ex_world (ex_api_write (Parsed ex_accepted_with_error)))
             ''0051-12-01-02'' ''<json>'' (Some ''0051-12'') (0, 0) (ex_state ex_ledger [])))
     ''0051-12'' ''0051-12-01-02'' = Some (''error'', JStr ''gateway timeout'')"
  by (simp add: ex_eval ex_accepted_with_error_def update_one_def set_configuration_def
      api_call_def call_result_def update_odd_ones_status_def opt_truthy_def py_fmt_def Let_def)

section \<open>Ledger removal\<close>

text \<open>
  C4. For every ledger state and every scope key, \<^verbatim>\<open>remove_completed_site\<close> deletes the
  scope's entry iff every station record in it has status \<^verbatim>\<open>accepted\<close>: then the file is
  written without the entry; otherwise the state is unchanged (nothing is written). A key
  without an entry leaves the state unchanged, and no other entry is ever touched.
\<close>

theorem remove_completed_site_iff:
  "(map_of (load_all_odd_ones_out st) site_key = None \<longrightarrow>
      remove_completed_site site_key st = st) \<and>
   (\<forall>site_data. map_of (load_all_odd_ones_out st) site_key = Some site_data \<longrightarrow>
      (map_of (load_all_odd_ones_out (remove_completed_site site_key st)) site_key = None
         \<longleftrightarrow> list_all (\<lambda>s. s_update_status s = ''accepted'') (e_stations site_data)) \<and>
      (list_all (\<lambda>s. s_update_status s = ''accepted'') (e_stations site_data) \<longrightarrow>
         remove_completed_site site_key st =
           st\<lparr>ledger_hist := AList.delete site_key (load_all_odd_ones_out st) # ledger_hist st\<rparr>) \<and>
      (\<not> list_all (\<lambda>s. s_update_status s = ''accepted'') (e_stations site_data) \<longrightarrow>
         remove_completed_site site_key st = st)) \<and>
   (\<forall>k. k \<noteq> site_key \<longrightarrow>
      map_of (load_all_odd_ones_out (remove_completed_site site_key st)) k =
      map_of (load_all_odd_ones_out st) k)"
  by (auto simp: remove_completed_site_def Let_def save_all_odd_ones_out_def
      load_all_odd_ones_out_def delete_conv split: option.splits list.splits)

theorem remove_completed_site_iff_witness:
  "map_of (load_all_odd_ones_out (ex_state ex_ledger [])) ''0051-09'' =
     Some (ex_site [ex_station ''0051-09-02-01'' ''accepted'',
                    ex_station ''0051-09-02-02'' ''accepted'']) \<and>
   load_all_odd_ones_out (remove_completed_site ''0051-09'' (ex_state ex_ledger [])) =
     [(''0051-12'', ex_site [ex_station ''0051-12-01-01'' ''accepted'',
                            ex_station ''0051-12-01-02'' ''rejected''])] \<and>
   remove_completed_site ''0051-12'' (ex_state ex_ledger []) = ex_state ex_ledger [] \<and>
   remove_completed_site ''0051-13'' (ex_state ex_ledger []) = ex_state ex_ledger []"
  using remove_completed_site_iff [of "ex_state ex_ledger []" "''0051-09''"]
        remove_completed_site_iff [of "ex_state ex_ledger []" "''0051-12''"]
        remove_completed_site_iff [of "ex_state ex_ledger []" "''0051-13''"]
  by (simp add: ex_state_def ex_ledger_def ex_site_def ex_station_def
      load_all_odd_ones_out_def)
section \<open>Retrying a scope\<close>

text \<open>
  One status update keeps the list of station identifiers of the entry and every record with
  another identifier; a failed attempt leaves a record that is not \<^verbatim>\<open>accepted\<close>.
\<close>

lemma update_station_keeps:
  "pfid \<in> s_pfid ` set stations \<Longrightarrow>
   \<exists>stations'. update_station pfid status reason t stations = Some stations' \<and>
     map s_pfid stations' = map s_pfid stations \<and>
     (\<forall>s \<in> set stations. s_pfid s \<noteq> pfid \<longrightarrow> s \<in> set stations') \<and>
     (\<exists>s \<in> set stations'. s_pfid s = pfid \<and> s_update_status s = status)"
proof (induction stations)
  case Nil
  then show ?case by simp
next
  case (Cons a stations)
  show ?case
  proof (cases "s_pfid a = pfid")
    case True
    then show ?thesis by auto
  next
    case False
    with Cons.prems have "pfid \<in> s_pfid ` set stations" by auto
    from Cons.IH [OF this] obtain stations' where
      u: "update_station pfid status reason t stations = Some stations'"
      and m: "map s_pfid stations' = map s_pfid stations"
      and k: "\<forall>s \<in> set stations. s_pfid s \<noteq> pfid \<longrightarrow> s \<in> set stations'"
      and h: "\<exists>s \<in> set stations'. s_pfid s = pfid \<and> s_update_status s = status"
      by blast
    from False u m k h show ?thesis by auto
  qed
qed

lemma update_station_shadowed:
  "pfid \<notin> set seen \<Longrightarrow> update_station pfid status reason t stations = Some stations' \<Longrightarrow>
   shadowed seen stations \<Longrightarrow> shadowed seen stations'"
proof (induction stations arbitrary: seen stations')
  case Nil
  then show ?case by simp
next
  case (Cons a stations)
  show ?case
  proof (cases "s_pfid a = pfid")
    case True
    with Cons.prems show ?thesis by auto
  next
    case False
    with Cons.prems(2) obtain rest' where
      u: "update_station pfid status reason t stations = Some rest'"
      and s': "stations' = a # rest'"
      by (auto split: option.splits)
    have n: "pfid \<notin> set (s_pfid a # seen)" using False Cons.prems(1) by auto
    from Cons.prems(3) show ?thesis
      unfolding s' using Cons.IH [OF n u] by auto
  qed
qed

lemma shadowed_not_accepted:
  "shadowed seen stations \<Longrightarrow> \<exists>s \<in> set stations. s_update_status s \<noteq> ''accepted''"
  by (induction stations arbitrary: seen) auto

lemma update_status_keeps:
  assumes key: "site_key \<noteq> []"
    and site: "map_of (load_all_odd_ones_out st) site_key = Some site_data"
    and p: "pfid \<in> s_pfid ` set (e_stations site_data)"
  shows "\<exists>site'. map_of (load_all_odd_ones_out
                     (update_odd_ones_status X pfid status reason (Some site_key) st)) site_key =
                   Some site' \<and>
     map s_pfid (e_stations site') = map s_pfid (e_stations site_data) \<and>
     (\<forall>s \<in> set (e_stations site_data). s_pfid s \<noteq> pfid \<longrightarrow> s \<in> set (e_stations site')) \<and>
     (\<exists>s \<in> set (e_stations site'). s_pfid s = pfid \<and> s_update_status s = status) \<and>
     (shadowed [] (e_stations site_data) \<longrightarrow> shadowed [] (e_stations site'))"
proof -
  from update_station_keeps [OF p, of status reason "now_iso X (ticks st)"]
  obtain stations' where
    u: "update_station pfid status reason (now_iso X (ticks st)) (e_stations site_data) =
          Some stations'"
    and m: "map s_pfid stations' = map s_pfid (e_stations site_data)"
    and k: "\<forall>s \<in> set (e_stations site_data). s_pfid s \<noteq> pfid \<longrightarrow> s \<in> set stations'"
    and h: "\<exists>s \<in> set stations'. s_pfid s = pfid \<and> s_update_status s = status"
    by blast
  have run: "update_odd_ones_status X pfid status reason (Some site_key) st =
     save_all_odd_ones_out
       (AList.update site_key
          (site_data\<lparr>e_stations := stations', e_last_updated := now_iso X (Suc (ticks st))\<rparr>)
          (load_all_odd_ones_out st))
       (st\<lparr>ticks := Suc (Suc (ticks st))\<rparr>)"
    using key site u by (simp add: update_odd_ones_status_def opt_truthy_def py_fmt_def Let_def)
  have "map_of (load_all_odd_ones_out
          (update_odd_ones_status X pfid status reason (Some site_key) st)) site_key =
        Some (site_data\<lparr>e_stations := stations', e_last_updated := now_iso X (Suc (ticks st))\<rparr>)"
    unfolding run
    by (simp add: save_all_odd_ones_out_def load_all_odd_ones_out_def update_conv')
  moreover have "shadowed [] (e_stations site_data) \<longrightarrow> shadowed [] stations'"
    using update_station_shadowed [OF _ u, of "[]"] by simp
  ultimately show ?thesis using m k h by simp
qed


lemma keeps_trans:
  "keeps ps a b \<Longrightarrow> keeps qs b c \<Longrightarrow> keeps (ps \<union> qs) a c"
  by (auto simp: keeps_def)

lemma keeps_refl: "keeps ps a a"
  by (simp add: keeps_def)

lemma two_updates:
  assumes key: "site_key \<noteq> []"
    and site: "map_of (load_all_odd_ones_out st) site_key = Some site_data"
    and p: "pfid \<in> s_pfid ` set (e_stations site_data)"
  shows "\<exists>site'. map_of (load_all_odd_ones_out
            (if again
             then update_odd_ones_status X pfid ''error'' reason' (Some site_key)
                    (update_odd_ones_status X pfid status reason (Some site_key) st)
             else update_odd_ones_status X pfid status reason (Some site_key) st)) site_key =
          Some site' \<and>
     keeps {pfid} site_data site' \<and>
     (status \<noteq> ''accepted'' \<longrightarrow>
        (\<exists>s \<in> set (e_stations site'). s_pfid s = pfid \<and> s_update_status s \<noteq> ''accepted''))"
proof -
  define st2 where "st2 = update_odd_ones_status X pfid status reason (Some site_key) st"
  define st3 where "st3 = (if again
                     then update_odd_ones_status X pfid ''error'' reason' (Some site_key) st2
                     else st2)"
  have goal: "(if again
             then update_odd_ones_status X pfid ''error'' reason' (Some site_key)
                    (update_odd_ones_status X pfid status reason (Some site_key) st)
             else update_odd_ones_status X pfid status reason (Some site_key) st) = st3"
    by (simp add: st3_def st2_def)
  from update_status_keeps [OF key site p, of X status reason]
  obtain site2 where
    s2: "map_of (load_all_odd_ones_out st2) site_key = Some site2"
    and m2: "map s_pfid (e_stations site2) = map s_pfid (e_stations site_data)"
    and k2: "\<forall>s \<in> set (e_stations site_data). s_pfid s \<noteq> pfid \<longrightarrow> s \<in> set (e_stations site2)"
    and h2: "\<exists>s \<in> set (e_stations site2). s_pfid s = pfid \<and> s_update_status s = status"
    and sh2: "shadowed [] (e_stations site_data) \<longrightarrow> shadowed [] (e_stations site2)"
    unfolding st2_def by blast
  have keeps2: "keeps {pfid} site_data site2"
    using m2 k2 sh2 by (simp add: keeps_def)
  show ?thesis
  proof (cases again)
    case False
    then have "st3 = st2" by (simp add: st3_def)
    with s2 keeps2 h2 show ?thesis unfolding goal by auto
  next
    case True
    have p2: "pfid \<in> s_pfid ` set (e_stations site2)"
      using p m2 by (metis list.set_map)
    from update_status_keeps [OF key s2 p2, of X "''error''" reason']
    obtain site3 where
      s3: "map_of (load_all_odd_ones_out
             (update_odd_ones_status X pfid ''error'' reason' (Some site_key) st2)) site_key =
           Some site3"
      and m3: "map s_pfid (e_stations site3) = map s_pfid (e_stations site2)"
      and k3: "\<forall>s \<in> set (e_stations site2). s_pfid s \<noteq> pfid \<longrightarrow> s \<in> set (e_stations site3)"
      and h3: "\<exists>s \<in> set (e_stations site3). s_pfid s = pfid \<and> s_update_status s = ''error''"
      and sh3: "shadowed [] (e_stations site2) \<longrightarrow> shadowed [] (e_stations site3)"
      by blast
    have "keeps {pfid} site2 site3" using m3 k3 sh3 by (simp add: keeps_def)
    with keeps2 have "keeps {pfid} site_data site3"
      using keeps_trans [of "{pfid}" site_data site2 "{pfid}" site3] by simp
    moreover from h3 have
      "\<exists>s \<in> set (e_stations site3). s_pfid s = pfid \<and> s_update_status s \<noteq> ''accepted''"
      by auto
    ultimately show ?thesis unfolding goal using s3 True by (auto simp: st3_def)
  qed
qed

lemma update_one_shape:
  assumes "update_one X pfid str site_key counts st = (Inr counts', st')"
  shows "\<exists>status reason again reason'.
     st' = (if again
            then update_odd_ones_status X pfid ''error'' reason' site_key
                   (update_odd_ones_status X pfid status reason site_key
                      (st\<lparr>calls := calls st @ [SetConfiguration (JStr pfid) ''PricingSchedule'' str]\<rparr>))
            else update_odd_ones_status X pfid status reason site_key
                   (st\<lparr>calls := calls st @ [SetConfiguration (JStr pfid) ''PricingSchedule'' str]\<rparr>)) \<and>
     snd counts \<le> snd counts' \<and>
     (snd counts < snd counts' \<longrightarrow> status \<noteq> ''accepted'')"
proof -
  let ?c = "SetConfiguration (JStr pfid) ''PricingSchedule'' str"
  let ?st1 = "st\<lparr>calls := calls st @ [?c]\<rparr>"
  let ?res = "call_result (api_reply X (calls st) ?c)"
  have set: "set_configuration X (JStr pfid) ''PricingSchedule'' str st = (?res, ?st1)"
    by (simp add: set_configuration_def api_call_def)
  from assms set obtain res where res: "?res = JObj res"
    by (cases ?res) (simp_all add: update_one_def)
  let ?again = "has_key res ''error''" and ?r' = "dict_get res ''error'' JNull"
  have shape: "\<And>status reason c1.
      update_one X pfid str site_key counts st =
        (Inr c1, if ?again
                 then update_odd_ones_status X pfid ''error'' ?r' site_key
                        (update_odd_ones_status X pfid status reason site_key ?st1)
                 else update_odd_ones_status X pfid status reason site_key ?st1) \<Longrightarrow>
      snd counts \<le> snd c1 \<Longrightarrow> (snd counts < snd c1 \<longrightarrow> status \<noteq> ''accepted'') \<Longrightarrow>
      ?thesis"
    using assms by (intro exI [of _ _] conjI) auto
  show ?thesis
  proof (cases "dict_get res ''natsResponse'' (JObj [])")
    case (JObj nats)
    show ?thesis
    proof (cases "dict_get nats ''status'' (JStr ''Unknown'') = JStr ''Accepted''")
      case True
      show ?thesis
        by (rule shape [of "(Suc (fst counts), snd counts)" "''accepted''" JNull])
          (simp_all add: update_one_def set res JObj True)
    next
      case False
      show ?thesis
        by (rule shape [of "(fst counts, Suc (snd counts))" "''rejected''"
              "rejection_reason_of X nats"])
          (simp_all add: update_one_def set res JObj False)
    qed
  next
    case JNull
    show ?thesis
      by (rule shape [of "(fst counts, Suc (snd counts))" "''error''"
            "JStr (if truthy JNull then py_str X JNull else ''Unknown error'')"])
        (simp_all add: update_one_def set res JNull)
  next
    case (JBool b)
    show ?thesis
      by (rule shape [of "(fst counts, Suc (snd counts))" "''error''"
            "JStr (if truthy (JBool b) then py_str X (JBool b) else ''Unknown error'')"])
        (simp_all add: update_one_def set res JBool)
  next
    case (JInt i)
    show ?thesis
      by (rule shape [of "(fst counts, Suc (snd counts))" "''error''"
            "JStr (if truthy (JInt i) then py_str X (JInt i) else ''Unknown error'')"])
        (simp_all add: update_one_def set res JInt)
  next
    case (JFloat r)
    show ?thesis
      by (rule shape [of "(fst counts, Suc (snd counts))" "''error''"
            "JStr (if truthy (JFloat r) then py_str X (JFloat r) else ''Unknown error'')"])
        (simp_all add: update_one_def set res JFloat)
  next
    case (JStr v)
    show ?thesis
      by (rule shape [of "(fst counts, Suc (snd counts))" "''error''"
            "JStr (if truthy (JStr v) then py_str X (JStr v) else ''Unknown error'')"])
        (simp_all add: update_one_def set res JStr)
  next
    case (JArr xs)
    show ?thesis
      by (rule shape [of "(fst counts, Suc (snd counts))" "''error''"
            "JStr (if truthy (JArr xs) then py_str X (JArr xs) else ''Unknown error'')"])
        (simp_all add: update_one_def set res JArr)
  qed
qed


lemma load_after_call:
  "load_all_odd_ones_out (st\<lparr>calls := cs\<rparr>) = load_all_odd_ones_out st"
  "load_all_odd_ones_out (st\<lparr>stdin := ls\<rparr>) = load_all_odd_ones_out st"
  by (simp_all add: load_all_odd_ones_out_def)

lemma update_one_inv:
  assumes key: "site_key \<noteq> []"
    and site: "map_of (load_all_odd_ones_out st) site_key = Some site_data"
    and p: "pfid \<in> s_pfid ` set (e_stations site_data)"
    and run: "update_one X pfid str (Some site_key) counts st = (Inr counts', st')"
  shows "\<exists>site'. map_of (load_all_odd_ones_out st') site_key = Some site' \<and>
     keeps {pfid} site_data site' \<and> snd counts \<le> snd counts' \<and>
     (snd counts < snd counts' \<longrightarrow>
        (\<exists>s \<in> set (e_stations site'). s_pfid s = pfid \<and> s_update_status s \<noteq> ''accepted''))"
proof -
  let ?st1 = "st\<lparr>calls := calls st @ [SetConfiguration (JStr pfid) ''PricingSchedule'' str]\<rparr>"
  from update_one_shape [OF run] obtain status reason again reason' where
    st': "st' = (if again
            then update_odd_ones_status X pfid ''error'' reason' (Some site_key)
                   (update_odd_ones_status X pfid status reason (Some site_key) ?st1)
            else update_odd_ones_status X pfid status reason (Some site_key) ?st1)"
    and le: "snd counts \<le> snd counts'"
    and lt: "snd counts < snd counts' \<longrightarrow> status \<noteq> ''accepted''"
    by blast
  have site1: "map_of (load_all_odd_ones_out ?st1) site_key = Some site_data"
    using site by (simp add: load_after_call)
  from two_updates [OF key site1 p, of again X reason' status reason] st' le lt
  show ?thesis by auto
qed

lemma update_all_inv:
  assumes key: "site_key \<noteq> []"
  shows "map_of (load_all_odd_ones_out st) site_key = Some site_data \<Longrightarrow>
     set ps \<subseteq> s_pfid ` set (e_stations site_data) \<Longrightarrow>
     update_all X ps str (Some site_key) counts st = (Inr counts', st') \<Longrightarrow>
     \<exists>site'. map_of (load_all_odd_ones_out st') site_key = Some site' \<and>
       keeps (set ps) site_data site' \<and> snd counts \<le> snd counts' \<and>
       (distinct ps \<and> snd counts < snd counts' \<longrightarrow>
          (\<exists>s \<in> set (e_stations site'). s_update_status s \<noteq> ''accepted''))"
proof (induction ps arbitrary: st site_data counts)
  case Nil
  then show ?case by (simp add: keeps_refl)
next
  case (Cons p ps)
  obtain r1 st1 where u: "update_one X p str (Some site_key) counts st = (r1, st1)"
    by (rule prod.exhaust)
  with Cons.prems(3) obtain c1 where r1: "r1 = Inr c1" by (cases r1) auto
  with u Cons.prems(3) have rest: "update_all X ps str (Some site_key) c1 st1 = (Inr counts', st')"
    by simp
  from Cons.prems(2) have p: "p \<in> s_pfid ` set (e_stations site_data)" by simp
  from update_one_inv [OF key Cons.prems(1) p u [unfolded r1]] obtain site1 where
    s1: "map_of (load_all_odd_ones_out st1) site_key = Some site1"
    and k1: "keeps {p} site_data site1"
    and le1: "snd counts \<le> snd c1"
    and lt1: "snd counts < snd c1 \<longrightarrow>
        (\<exists>s \<in> set (e_stations site1). s_pfid s = p \<and> s_update_status s \<noteq> ''accepted'')"
    by blast
  have sub: "set ps \<subseteq> s_pfid ` set (e_stations site1)"
    using Cons.prems(2) k1 by (metis keeps_def list.set_map set_subset_Cons subset_trans)
  from Cons.IH [OF s1 sub rest] obtain site' where
    s': "map_of (load_all_odd_ones_out st') site_key = Some site'"
    and k': "keeps (set ps) site1 site'"
    and le': "snd c1 \<le> snd counts'"
    and lt': "distinct ps \<and> snd c1 < snd counts' \<longrightarrow>
        (\<exists>s \<in> set (e_stations site'). s_update_status s \<noteq> ''accepted'')"
    by blast
  have k: "keeps (set (p # ps)) site_data site'"
    using keeps_trans [OF k1 k'] by simp
  have bad: "\<exists>s \<in> set (e_stations site'). s_update_status s \<noteq> ''accepted''"
    if d: "distinct (p # ps)" and "snd counts < snd counts'"
  proof (cases "snd counts < snd c1")
    case True
    with lt1 obtain s where s: "s \<in> set (e_stations site1)" "s_pfid s = p"
      "s_update_status s \<noteq> ''accepted''" by blast
    from d s have "s_pfid s \<notin> set ps" by simp
    with k' s have "s \<in> set (e_stations site')" by (simp add: keeps_def)
    with s show ?thesis by blast
  next
    case False
    with that le1 have "snd c1 < snd counts'" by simp
    with lt' d show ?thesis by simp
  qed
  from s' k le1 le' bad show ?case by auto
qed

lemma remove_completed_site_cases:
  "calls (remove_completed_site site_key st) = calls st \<and>
   (remove_completed_site site_key st = st \<or>
    map_of (load_all_odd_ones_out (remove_completed_site site_key st)) site_key = None)"
  by (auto simp: remove_completed_site_def Let_def save_all_odd_ones_out_def
      load_all_odd_ones_out_def delete_conv split: option.splits)

lemma remove_completed_site_blocked:
  "map_of (load_all_odd_ones_out st) site_key = Some site_data \<Longrightarrow>
   s \<in> set (e_stations site_data) \<Longrightarrow> s_update_status s \<noteq> ''accepted'' \<Longrightarrow>
   remove_completed_site site_key st = st"
  by (auto simp: remove_completed_site_def Let_def list_all_iff)

lemma to_retry_set:
  "set (to_retry stations) =
     {s \<in> set stations. s_update_status s \<in> {''pending'', ''rejected'', ''error''}}"
  by (auto simp: to_retry_def)

lemma to_retry_distinct:
  assumes "distinct (map s_pfid stations)"
  shows "distinct (map s_pfid (to_retry stations))"
proof -
  have inj: "inj_on s_pfid (set stations)" and d: "distinct stations"
    using assms by (simp_all add: distinct_map)
  have "distinct (to_retry stations)"
    using d by (auto simp: to_retry_def)
  moreover have "inj_on s_pfid (set (to_retry stations))"
    using inj by (rule inj_on_subset) (auto simp: to_retry_set)
  ultimately show ?thesis by (simp add: distinct_map)
qed

lemma to_retry_Cons_distinct:
  "distinct (map s_pfid (to_retry (s # stations))) \<longleftrightarrow>
     distinct (map s_pfid (to_retry stations)) \<and>
     (s_update_status s \<in> {''pending'', ''rejected'', ''error''} \<longrightarrow>
        s_pfid s \<notin> s_pfid ` set (to_retry stations))"
  by (auto simp: to_retry_def)

lemma to_retry_shadowed:
  "\<not> distinct (map s_pfid (to_retry stations)) \<or>
     (\<exists>b \<in> set (to_retry stations). s_pfid b \<in> set seen) \<Longrightarrow>
   shadowed seen stations"
proof (induction stations arbitrary: seen)
  case Nil
  then show ?case by (simp add: to_retry_def)
next
  case (Cons s stations)
  let ?P = "s_update_status s \<in> {''pending'', ''rejected'', ''error''}"
  have sets: "set (to_retry (s # stations)) =
      (if ?P then {s} else {}) \<union> set (to_retry stations)"
    by (auto simp: to_retry_set)
  from Cons.prems consider
      (a) "\<not> distinct (map s_pfid (to_retry stations))"
    | (b) "?P" "s_pfid s \<in> s_pfid ` set (to_retry stations)"
    | (c) "?P" "s_pfid s \<in> set seen"
    | (d) "\<exists>b \<in> set (to_retry stations). s_pfid b \<in> set seen"
    unfolding to_retry_Cons_distinct sets by (auto split: if_splits)
  then show ?case
  proof cases
    case a
    then have "shadowed (s_pfid s # seen) stations" using Cons.IH by blast
    then show ?thesis by simp
  next
    case b
    then have "\<exists>b \<in> set (to_retry stations). s_pfid b \<in> set (s_pfid s # seen)" by auto
    then have "shadowed (s_pfid s # seen) stations" using Cons.IH by blast
    then show ?thesis by simp
  next
    case c
    then show ?thesis by auto
  next
    case d
    then have "\<exists>b \<in> set (to_retry stations). s_pfid b \<in> set (s_pfid s # seen)" by auto
    then have "shadowed (s_pfid s # seen) stations" using Cons.IH by blast
    then show ?thesis by simp
  qed
qed

text \<open>
  C5. \<^verbatim>\<open>main_retry_site\<close>, run on a scope of the ledger that has station records, confirmed
  by the operator and returning normally: the station records it selects are exactly those
  whose status is \<^verbatim>\<open>pending\<close>, \<^verbatim>\<open>rejected\<close> or \<^verbatim>\<open>error\<close>; the calls it adds to the log
  are exactly one write of \<^verbatim>\<open>PricingSchedule\<close> per selected record, with the schedule stored
  in the scope's entry, and no read of any station; the final state is the state after these
  attempts with \<^verbatim>\<open>remove_completed_site\<close> applied to the scope; and every record that was
  \<^verbatim>\<open>accepted\<close> and whose station identifier no selected record carries is still in the
  scope's entry, unchanged, unless the entry was removed. So is every \<^verbatim>\<open>accepted\<close> record
  when the station identifiers of the scope's records are distinct. An \<^verbatim>\<open>accepted\<close>
  record whose identifier a selected record shares can be changed: a status update goes to
  the first record with the identifier.
\<close>

theorem main_retry_site_retries_outstanding:
  assumes site: "map_of (load_all_odd_ones_out st) site_key = Some site_data"
    and key: "site_key \<noteq> []"
    and ne: "e_stations site_data \<noteq> []"
    and line: "stdin st = line # rest"
    and conf: "confirms line"
    and run: "main_retry_site X site_key st = (Inr (), st')"
  shows "set (to_retry (e_stations site_data)) =
           {s \<in> set (e_stations site_data).
              s_update_status s \<in> {''pending'', ''rejected'', ''error''}} \<and>
         new_calls st st' = map (write_schedule X site_data) (to_retry (e_stations site_data)) \<and>
         st' = remove_completed_site site_key (after_attempts X site_key site_data st) \<and>
         (\<forall>s \<in> set (e_stations site_data).
            s_update_status s = ''accepted'' \<and>
            s_pfid s \<notin> s_pfid ` set (to_retry (e_stations site_data)) \<longrightarrow>
            (case map_of (load_all_odd_ones_out st') site_key of
               None \<Rightarrow> True
             | Some site' \<Rightarrow> s \<in> set (e_stations site'))) \<and>
         (distinct (map s_pfid (e_stations site_data)) \<longrightarrow>
            (\<forall>s \<in> set (e_stations site_data). s_update_status s = ''accepted'' \<longrightarrow>
               (case map_of (load_all_odd_ones_out st') site_key of
                  None \<Rightarrow> True
                | Some site' \<Rightarrow> s \<in> set (e_stations site'))))"
proof -
  let ?sts = "e_stations site_data"
  let ?ps = "map s_pfid (to_retry ?sts)"
  have ABC: "new_calls st st' = map (write_schedule X site_data) (to_retry ?sts) \<and>
       st' = remove_completed_site site_key (after_attempts X site_key site_data st) \<and>
       (\<forall>s \<in> set ?sts.
            s_update_status s = ''accepted'' \<and> s_pfid s \<notin> s_pfid ` set (to_retry ?sts) \<longrightarrow>
            (case map_of (load_all_odd_ones_out st') site_key of
               None \<Rightarrow> True
             | Some site' \<Rightarrow> s \<in> set (e_stations site')))" (is "?A \<and> ?B \<and> ?C")
    proof (cases "to_retry ?sts = []")
      case True
      with run site ne have st': "st' = remove_completed_site site_key st"
        by (simp add: main_retry_site_def)
      have aa: "after_attempts X site_key site_data st = st"
        using True by (simp add: after_attempts_def)
      from remove_completed_site_cases [of site_key st]
      have c: "calls st' = calls st"
        and d: "st' = st \<or> map_of (load_all_odd_ones_out st') site_key = None"
        unfolding st' by simp_all
      have a: ?A using c True by (simp add: new_calls_def)
      have b: ?B using st' aa by simp
      have c: ?C using d site by auto
      from a b c show ?thesis by (intro conjI)
    next
      case False
      let ?str = "json_dumps X (e_correct_schedule site_data)"
      let ?st1 = "st\<lparr>stdin := rest\<rparr>"
      have inp: "py_input st = (Inr line, ?st1)"
        using line by (simp add: py_input_def)
      obtain r st2 where u: "update_all X ?ps ?str (Some site_key) (0, 0) ?st1 = (r, st2)"
        by (rule prod.exhaust)
      have m: "main_retry_site X site_key st =
          (case (r, st2) of
             (Inl e, st2) \<Rightarrow> (Inl e, st2)
           | (Inr counts, st2) \<Rightarrow>
               (Inr (), if snd counts = 0 then remove_completed_site site_key st2 else st2))"
        using site ne False inp conf u by (simp add: main_retry_site_def)
      from m run obtain counts where r: "r = Inr counts" by (cases r) auto
      with m run have st': "st' = (if snd counts = 0 then remove_completed_site site_key st2 else st2)"
        by simp
      have aa: "after_attempts X site_key site_data st = st2"
        using False inp u by (simp add: after_attempts_def)
      have site1: "map_of (load_all_odd_ones_out ?st1) site_key = Some site_data"
        using site by (simp add: load_after_call)
      have sub: "set ?ps \<subseteq> s_pfid ` set ?sts"
        by (auto simp: to_retry_set)
      from update_all_inv [OF key site1 sub u [unfolded r]] obtain site2 where
        s2: "map_of (load_all_odd_ones_out st2) site_key = Some site2"
        and k2: "keeps (set ?ps) site_data site2"
        and bad: "distinct ?ps \<and> snd (0::nat, 0::nat) < snd counts \<longrightarrow>
            (\<exists>s \<in> set (e_stations site2). s_update_status s \<noteq> ''accepted'')"
        by blast
      have rem: "st' = remove_completed_site site_key st2"
      proof (cases "snd counts = 0")
        case True
        with st' show ?thesis by simp
      next
        case failed: False
        have "\<exists>s \<in> set (e_stations site2). s_update_status s \<noteq> ''accepted''"
        proof (cases "distinct ?ps")
          case True
          with bad failed show ?thesis by simp
        next
          case False
          then have "shadowed [] ?sts" using to_retry_shadowed [of ?sts "[]"] by blast
          with k2 have "shadowed [] (e_stations site2)" by (simp add: keeps_def)
          then show ?thesis by (rule shadowed_not_accepted)
        qed
        then obtain s where "s \<in> set (e_stations site2)" "s_update_status s \<noteq> ''accepted''"
          by auto
        from remove_completed_site_blocked [OF s2 this] st' failed show ?thesis by simp
      qed
      from remove_completed_site_cases [of site_key st2]
      have c: "calls st' = calls st2"
        and d: "st' = st2 \<or> map_of (load_all_odd_ones_out st') site_key = None"
        unfolding rem by simp_all
      have "calls st2 = calls ?st1 @ map (\<lambda>p. SetConfiguration (JStr p) ''PricingSchedule'' ?str) ?ps"
        using update_all_frame [of X ?ps ?str "Some site_key" "(0, 0)" ?st1] u r by simp
      then have a: ?A
        using c by (simp add: new_calls_def write_schedule_def comp_def)
      have kept: "s \<in> set (e_stations site2)"
        if "s \<in> set ?sts" and "s_pfid s \<notin> s_pfid ` set (to_retry ?sts)" for s
        using k2 that by (simp add: keeps_def)
      have b: ?B using rem aa by simp
      have c: ?C using d s2 kept by auto
      from a b c show ?thesis by (intro conjI)
    qed
  from ABC have A: "new_calls st st' = map (write_schedule X site_data) (to_retry ?sts)"
    and B: "st' = remove_completed_site site_key (after_attempts X site_key site_data st)"
    and C: "\<forall>s \<in> set ?sts.
            s_update_status s = ''accepted'' \<and> s_pfid s \<notin> s_pfid ` set (to_retry ?sts) \<longrightarrow>
            (case map_of (load_all_odd_ones_out st') site_key of
               None \<Rightarrow> True
             | Some site' \<Rightarrow> s \<in> set (e_stations site'))"
    by blast+
  have D: "\<forall>s \<in> set ?sts. s_update_status s = ''accepted'' \<longrightarrow>
               (case map_of (load_all_odd_ones_out st') site_key of
                  None \<Rightarrow> True
                | Some site' \<Rightarrow> s \<in> set (e_stations site'))"
    if dist: "distinct (map s_pfid ?sts)"
  proof (intro ballI impI)
    fix s assume s: "s \<in> set ?sts" and acc: "s_update_status s = ''accepted''"
    have inj: "inj_on s_pfid (set ?sts)" using dist by (simp add: distinct_map)
    have "s_pfid s \<notin> s_pfid ` set (to_retry ?sts)"
    proof
      assume "s_pfid s \<in> s_pfid ` set (to_retry ?sts)"
      then obtain s' where s': "s' \<in> set (to_retry ?sts)" "s_pfid s' = s_pfid s" by auto
      then have "s' \<in> set ?sts" by (simp add: to_retry_set)
      with inj s s' have "s' = s" by (auto dest: inj_onD)
      with s' acc show False by (simp add: to_retry_set)
    qed
    with C s acc show "case map_of (load_all_odd_ones_out st') site_key of
                  None \<Rightarrow> True
                | Some site' \<Rightarrow> s \<in> set (e_stations site')"
      by blast
  qed
  show ?thesis
    by (intro conjI impI) (rule to_retry_set, fact A, fact B, fact C, erule D)
qed

theorem main_retry_site_retries_outstanding_witness:
  "fst (main_retry_site (ex_world (ex_api_write (Parsed ex_rejected))) ''0051-12''
          (ex_state ex_ledger [''yes''])) = Inr () \<and>
   new_calls (ex_state ex_ledger [''yes''])
     (snd (main_retry_site (ex_world (ex_api_write (Parsed ex_rejected))) ''0051-12''
             (ex_state ex_ledger [''yes'']))) =
     [SetConfiguration (JStr ''0051-12-01-02'') ''PricingSchedule'' ''<json>''] \<and>
   station_status
     (snd (main_retry_site (ex_world (ex_api_write (Parsed ex_rejected))) ''0051-12''
             (ex_state ex_ledger [''yes''])))
     ''0051-12'' ''0051-12-01-01'' = Some (''accepted'', JNull) \<and>
   station_status
     (snd (main_retry_site (ex_world (ex_api_write (Parsed ex_rejected))) ''0051-12''
             (ex_state ex_ledger [''yes''])))
     ''0051-12'' ''0051-12-01-02'' = Some (''rejected'', JStr ''busy'')"
proof -
  let ?X = "ex_world (ex_api_write (Parsed ex_rejected))"
  let ?S = "ex_state ex_ledger [''yes'']"
  let ?site = "ex_site [ex_station ''0051-12-01-01'' ''accepted'',
                       ex_station ''0051-12-01-02'' ''rejected'']"
  have site: "map_of (load_all_odd_ones_out ?S) ''0051-12'' = Some ?site"
    by (simp add: load_all_odd_ones_out_def ex_state_def ex_ledger_def)
  have key: "''0051-12'' \<noteq> []" by simp
  have ne: "e_stations ?site \<noteq> []" by (simp add: ex_site_def)
  have line: "stdin ?S = ''yes'' # []" by (simp add: ex_state_def)
  have conf: "confirms ''yes''" by code_simp
  have ok: "fst (main_retry_site ?X ''0051-12'' ?S) = Inr ()" by code_simp
  then have run: "main_retry_site ?X ''0051-12'' ?S = (Inr (), snd (main_retry_site ?X ''0051-12'' ?S))"
    by (simp add: prod_eq_iff)
  from main_retry_site_retries_outstanding [OF site key ne line conf run]
  have "new_calls ?S (snd (main_retry_site ?X ''0051-12'' ?S)) =
      map (write_schedule ?X ?site) (to_retry (e_stations ?site))"
    by (elim conjE)
  then have calls: "new_calls ?S (snd (main_retry_site ?X ''0051-12'' ?S)) =
      [SetConfiguration (JStr ''0051-12-01-02'') ''PricingSchedule'' ''<json>'']"
    by (simp add: write_schedule_def to_retry_def ex_site_def ex_station_def ex_world_def)
  have kept: "station_status (snd (main_retry_site ?X ''0051-12'' ?S))
     ''0051-12'' ''0051-12-01-01'' = Some (''accepted'', JNull)"
    by code_simp
  have again: "station_status (snd (main_retry_site ?X ''0051-12'' ?S))
     ''0051-12'' ''0051-12-01-02'' = Some (''rejected'', JStr ''busy'')"
    by code_simp
  show ?thesis by (intro conjI) (fact ok, fact calls, fact kept, fact again)
qed

theorem main_retry_site_shared_identifier_counterexample:
  "map_option (\<lambda>e. map (\<lambda>s. (s_pfid s, s_update_status s)) (e_stations e))
     (map_of (load_all_odd_ones_out (ex_state ex_ledger_shared [''yes''])) ''0051-12'') =
     Some [(''0051-12-01-02'', ''accepted''), (''0051-12-01-02'', ''pending'')] \<and>
   fst (main_retry_site (ex_world (ex_api_write (Parsed ex_rejected))) ''0051-12''
          (ex_state ex_ledger_shared [''yes''])) = Inr () \<and>
   new_calls (ex_state ex_ledger_shared [''yes''])
     (snd (main_retry_site (ex_world (ex_api_write (Parsed ex_rejected))) ''0051-12''
             (ex_state ex_ledger_shared [''yes'']))) =
     [SetConfiguration (JStr ''0051-12-01-02'') ''PricingSchedule'' ''<json>''] \<and>
   map_option (\<lambda>e. map (\<lambda>s. (s_pfid s, s_update_status s)) (e_stations e))
     (map_of (load_all_odd_ones_out
        (snd (main_retry_site (ex_world (ex_api_write (Parsed ex_rejected))) ''0051-12''
                (ex_state ex_ledger_shared [''yes''])))) ''0051-12'') =
     Some [(''0051-12-01-02'', ''rejected''), (''0051-12-01-02'', ''pending'')]"
  by code_simp


section \<open>Scope filter\<close>

text \<open>
  C6. The filter of \<^verbatim>\<open>process_stations\<close> is \<^verbatim>\<open>pfid.startswith(pfid_prefix)\<close> at level 3
  and at level 4 alike. For a level-4 scope this is not a comparison of the fourth segment:
  with the scope \<^verbatim>\<open>0051 09 02 1\<close> the prefix is \<^verbatim>\<open>0051-09-02-1\<close>, and the station
  \<^verbatim>\<open>0051-09-02-10\<close>, whose fourth segment is \<^verbatim>\<open>10\<close>, is kept; the scan of this
  single-station scope records two stations.
\<close>

theorem level4_filter_keeps_longer_segment:
  "build_pfid_prefix (Some ''0051'') (Some ''09'') (Some ''02'') (Some ''1'') = Inr ''0051-09-02-1'' \<and>
   select_liteon (Some ''0051-09-02-1'')
     [JObj [(''pfid'', JStr ''0051-09-02-10''), (''evse_type'', JStr ''LiteON DC'')]] [] =
     Inr [JObj [(''pfid'', JStr ''0051-09-02-10''), (''evse_type'', JStr ''LiteON DC'')]] \<and>
   py_split_on CHR ''-'' ''0051-09-02-10'' = [''0051'', ''09'', ''02'', ''10''] \<and>
   map r_pfid (projr (fst (process_stations (ex_world ex_api_listing)
       (Some ''0051'') (Some ''09'') (Some ''02'') (Some ''1'') None (ex_state [] [])))) =
     [''0051-09-02-1'', ''0051-09-02-10'']"
  by (simp add: build_pfid_prefix_def opt_part_def prefix_ok_def opt_truthy_def py_fmt_def
      startswith_def dict_get_def py_lower_def lower_char_def py_split_on_def
      process_stations_def fetch_station_data_def api_call_def ex_world_def ex_api_listing_def
      ex_listing_def ex_state_def entry_pfid_def or_empty_def scan_station_def
      get_configuration_def set_configuration_def call_result_def extract_pricing_enabled_def
      extract_pricing_schedule_def config_keys_def except_type_key_def
      check_schedule_values_def)

section \<open>Read failures during a scan\<close>

lemma failed_read_result:
  "read_failed r \<Longrightarrow> \<exists>msg. call_result r = JObj [(''error'', JStr msg)]"
  by (cases r) (simp_all add: read_failed_def call_result_def)

lemma failed_read_enabled:
  "read_failed r \<Longrightarrow> extract_pricing_enabled (call_result r) = Inr None"
  by (cases r)
    (simp_all add: read_failed_def call_result_def extract_pricing_enabled_def config_keys_def
      dict_get_def except_type_key_def)

lemma failed_read_schedule:
  "read_failed r \<Longrightarrow> extract_pricing_schedule X (call_result r) = Inr JNull"
  by (cases r)
    (simp_all add: read_failed_def call_result_def extract_pricing_schedule_def config_keys_def
      dict_get_def except_type_key_def)

lemma scan_station_run:
  assumes en: "extract_pricing_enabled (call_result (api_reply X (calls st) (flag_read p))) = Inr enabled"
    and sc: "extract_pricing_schedule X
               (call_result (api_reply X (calls st @ flag_calls p enabled) (schedule_read p))) =
             Inr schedule"
    and ch: "check_schedule_values schedule = Inr (all_correct, mismatches)"
  shows "scan_station X acn_id acc_id (JStr p) st =
     (Inr (station_result acn_id acc_id p schedule all_correct mismatches),
      st\<lparr>calls := calls st @ flag_calls p enabled @ [schedule_read p]\<rparr>)"
proof (cases "enabled = Some True")
  case True
  with en sc ch show ?thesis
    by (simp add: scan_station_def get_configuration_def api_call_def flag_read_def
        schedule_read_def flag_calls_def station_result_def pfid_segment_def Let_def)
next
  case False
  with en sc ch show ?thesis
    by (simp add: scan_station_def get_configuration_def set_configuration_def api_call_def
        flag_read_def flag_write_def schedule_read_def flag_calls_def station_result_def
        pfid_segment_def Let_def)
qed

lemma scan_stations_append:
  "scan_stations X acn_id acc_id (pre @ rest) rs st =
     (case scan_stations X acn_id acc_id pre rs st of
        (Inl e, st') \<Rightarrow> (Inl e, st')
      | (Inr rs', st') \<Rightarrow> scan_stations X acn_id acc_id rest rs' st')"
  by (induction pre arbitrary: rs st) (auto split: prod.splits sum.splits)

lemma check_absent: "check_schedule_values JNull = Inr (None, [])"
  by (simp add: check_schedule_values_def)

text \<open>
  C7 (as amended). A read failure (transport error or unparseable response) on one station
  does not abort the scan. A failed flag read is taken as not enabled. When the schedule
  read fails, whatever the flag read gave, the station is recorded with an indeterminate
  verdict and the loop goes on with every later candidate. When only the flag read fails,
  the enabling write is issued, the station is recorded with the verdict its schedule gives,
  and the loop goes on with every later candidate.
\<close>

theorem scan_continues_after_read_failure:
  assumes before: "scan_stations X acn_id acc_id pre rs st = (Inr rs1, st1)"
  shows
  "(read_failed (api_reply X (calls st1) (flag_read p)) \<longrightarrow>
      extract_pricing_enabled (call_result (api_reply X (calls st1) (flag_read p))) = Inr None) \<and>
   (\<forall>enabled.
      extract_pricing_enabled (call_result (api_reply X (calls st1) (flag_read p))) = Inr enabled \<and>
      read_failed (api_reply X (calls st1 @ flag_calls p enabled) (schedule_read p)) \<longrightarrow>
      scan_stations X acn_id acc_id (pre @ JStr p # post) rs st =
        scan_stations X acn_id acc_id post
          (rs1 @ [station_result acn_id acc_id p JNull None []])
          (st1\<lparr>calls := calls st1 @ flag_calls p enabled @ [schedule_read p]\<rparr>)) \<and>
   (\<forall>schedule all_correct mismatches.
      read_failed (api_reply X (calls st1) (flag_read p)) \<and>
      extract_pricing_schedule X
        (call_result (api_reply X (calls st1 @ [flag_read p, flag_write p]) (schedule_read p))) =
        Inr schedule \<and>
      check_schedule_values schedule = Inr (all_correct, mismatches) \<longrightarrow>
      scan_stations X acn_id acc_id (pre @ JStr p # post) rs st =
        scan_stations X acn_id acc_id post
          (rs1 @ [station_result acn_id acc_id p schedule all_correct mismatches])
          (st1\<lparr>calls := calls st1 @ [flag_read p, flag_write p, schedule_read p]\<rparr>))"
proof (intro conjI allI impI)
  assume "read_failed (api_reply X (calls st1) (flag_read p))"
  then show "extract_pricing_enabled (call_result (api_reply X (calls st1) (flag_read p))) = Inr None"
    by (rule failed_read_enabled)
next
  fix enabled
  assume h: "extract_pricing_enabled (call_result (api_reply X (calls st1) (flag_read p))) = Inr enabled \<and>
      read_failed (api_reply X (calls st1 @ flag_calls p enabled) (schedule_read p))"
  have one: "scan_station X acn_id acc_id (JStr p) st1 =
     (Inr (station_result acn_id acc_id p JNull None []),
      st1\<lparr>calls := calls st1 @ flag_calls p enabled @ [schedule_read p]\<rparr>)"
    using h by (intro scan_station_run failed_read_schedule check_absent) simp_all
  show "scan_stations X acn_id acc_id (pre @ JStr p # post) rs st =
        scan_stations X acn_id acc_id post
          (rs1 @ [station_result acn_id acc_id p JNull None []])
          (st1\<lparr>calls := calls st1 @ flag_calls p enabled @ [schedule_read p]\<rparr>)"
    by (simp add: scan_stations_append before one)
next
  fix schedule all_correct mismatches
  assume h: "read_failed (api_reply X (calls st1) (flag_read p)) \<and>
      extract_pricing_schedule X
        (call_result (api_reply X (calls st1 @ [flag_read p, flag_write p]) (schedule_read p))) =
        Inr schedule \<and>
      check_schedule_values schedule = Inr (all_correct, mismatches)"
  have en: "extract_pricing_enabled (call_result (api_reply X (calls st1) (flag_read p))) = Inr None"
    using h by (simp add: failed_read_enabled)
  have one: "scan_station X acn_id acc_id (JStr p) st1 =
     (Inr (station_result acn_id acc_id p schedule all_correct mismatches),
      st1\<lparr>calls := calls st1 @ flag_calls p None @ [schedule_read p]\<rparr>)"
    using h en by (intro scan_station_run) (simp_all add: flag_calls_def)
  show "scan_stations X acn_id acc_id (pre @ JStr p # post) rs st =
        scan_stations X acn_id acc_id post
          (rs1 @ [station_result acn_id acc_id p schedule all_correct mismatches])
          (st1\<lparr>calls := calls st1 @ [flag_read p, flag_write p, schedule_read p]\<rparr>)"
    by (simp add: scan_stations_append before one flag_calls_def)
qed

lemmas scan_eval =
  scan_station_def get_configuration_def set_configuration_def api_call_def call_result_def
  extract_pricing_enabled_def extract_pricing_schedule_def config_keys_def except_type_key_def
  check_schedule_values_def dict_get_def py_lower_def lower_char_def py_split_on_def
  expected_f_def py_ne_float_def ex_config_def ex_world_def ex_state_def

theorem scan_continues_after_read_failure_witness:
  "map (\<lambda>r. (r_pfid r, r_all_correct r))
     (projr (fst (scan_stations (ex_world ex_api_scan) (Some ''0051'') (Some ''09'')
        [JStr ''0051-09-02-01'', JStr ''0051-09-02-02''] [] (ex_state [] [])))) =
   [(''0051-09-02-01'', None), (''0051-09-02-02'', Some True)]"
proof -
  let ?X = "ex_world ex_api_scan" and ?st = "ex_state [] []"
  have before: "scan_stations ?X (Some ''0051'') (Some ''09'') [] [] ?st = (Inr [], ?st)"
    by simp
  have flag: "extract_pricing_enabled
      (call_result (api_reply ?X (calls ?st) (flag_read ''0051-09-02-01''))) = Inr None"
    using scan_continues_after_read_failure [OF before, THEN conjunct1, of "''0051-09-02-01''"]
    by (simp add: ex_world_def ex_api_scan_def flag_read_def read_failed_def)
  have sched: "read_failed (api_reply ?X (calls ?st @ flag_calls ''0051-09-02-01'' None)
      (schedule_read ''0051-09-02-01''))"
    by (simp add: ex_world_def ex_api_scan_def schedule_read_def read_failed_def)
  have step: "scan_stations ?X (Some ''0051'') (Some ''09'')
        ([] @ JStr ''0051-09-02-01'' # [JStr ''0051-09-02-02'']) [] ?st =
      scan_stations ?X (Some ''0051'') (Some ''09'') [JStr ''0051-09-02-02'']
        ([] @ [station_result (Some ''0051'') (Some ''09'') ''0051-09-02-01'' JNull None []])
        (?st\<lparr>calls := calls ?st @ flag_calls ''0051-09-02-01'' None
                              @ [schedule_read ''0051-09-02-01'']\<rparr>)"
    using scan_continues_after_read_failure [OF before, THEN conjunct2, THEN conjunct1,
        rule_format, of "''0051-09-02-01''" None] flag sched
    by blast
  show ?thesis
    using step
    by (simp add: scan_eval ex_api_scan_def station_result_def flag_calls_def flag_read_def
        flag_write_def schedule_read_def)
qed


text \<open>
  The claim as first stated fails when only the flag read fails: the station is then recorded
  as conforming, not as indeterminate.
\<close>

theorem scan_flag_failure_counterexample:
  "read_failed (api_reply (ex_world ex_api_flag_down) (calls (ex_state [] []))
      (flag_read ''0051-09-02-01'')) \<and>
   map (\<lambda>r. (r_pfid r, verdict_of (r_all_correct r)))
     (projr (fst (scan_stations (ex_world ex_api_flag_down) (Some ''0051'') (Some ''09'')
        [JStr ''0051-09-02-01''] [] (ex_state [] [])))) =
   [(''0051-09-02-01'', Conforming)]"
  by (simp add: scan_eval ex_api_flag_down_def flag_read_def read_failed_def)

section \<open>Scope specifier\<close>

lemma split_ws_token:
  "list_all (\<lambda>c. \<not> is_space c) x \<Longrightarrow> split_ws (x @ rest) cur = split_ws rest (cur @ x)"
  by (induction x arbitrary: cur) simp_all

lemma is_space_blank: "is_space CHR '' ''"
  by (simp add: is_space_def)

lemma split_ws_join:
  "list_all (\<lambda>x. x \<noteq> [] \<and> list_all (\<lambda>c. \<not> is_space c) x) xs \<Longrightarrow>
   split_ws (join '' '' xs) [] = xs"
proof (induction xs rule: induct_list012)
  case 1
  then show ?case by simp
next
  case (2 x)
  then show ?case using split_ws_token [of x "[]" "[]"] by simp
next
  case (3 x y ys)
  then show ?case
    using split_ws_token [of x "CHR '' '' # join '' '' (y # ys)" "[]"]
    by (simp add: is_space_blank)
qed

lemma py_strip_token:
  assumes ne: "x \<noteq> []" and ns: "list_all (\<lambda>c. \<not> is_space c) x"
  shows "py_strip x = x"
proof -
  have a: "dropWhile is_space x = x" using ne ns by (cases x) simp_all
  have "\<not> is_space (last x)" using ne ns by (simp add: list_all_iff)
  then have b: "dropWhile is_space (rev x) = rev x"
    using ne by (cases x rule: rev_cases) simp_all
  show ?thesis by (simp add: py_strip_def a b)
qed

lemma replace_char_join:
  "list_all (\<lambda>x. list_all (\<lambda>c. c \<noteq> CHR ''-'') x) xs \<Longrightarrow>
   replace_char CHR ''-'' CHR '' '' (join '' '' xs) = join '' '' xs"
  by (induction xs rule: induct_list012) (simp_all add: replace_char_def list_all_iff map_idI)

lemma pfid_parts_clean:
  assumes "list_all clean_token args"
  shows "pfid_parts args = args"
proof -
  have a: "list_all (\<lambda>x. list_all (\<lambda>c. c \<noteq> CHR ''-'') x) args"
    using assms by (simp add: clean_token_def list_all_iff)
  have b: "list_all (\<lambda>x. x \<noteq> [] \<and> list_all (\<lambda>c. \<not> is_space c) x) args"
    using assms by (simp add: clean_token_def list_all_iff)
  have c: "\<forall>x \<in> set args. py_strip x = x"
    using b py_strip_token by (auto simp: list_all_iff)
  have d: "filter (\<lambda>part. py_strip part \<noteq> []) args = args"
    using b c by (auto simp: list_all_iff filter_id_conv)
  show ?thesis
    using c
    by (simp add: pfid_parts_def replace_char_join [OF a] py_split_def split_ws_join [OF b] d
        map_idI)
qed

lemma parse_pfid_input_none:
  "pfid_parts args = [] \<Longrightarrow>
   parse_pfid_input args =
     \<lparr>pi_acn = None, pi_acc = None, pi_acg = None, pi_acs = None, pi_mode = None\<rparr>"
  by (simp add: parse_pfid_input_def)

lemma parse_pfid_input_levels:
  assumes "1 \<le> length (pfid_parts args)" "length (pfid_parts args) \<le> 4"
  shows "parse_pfid_input args =
     \<lparr>pi_acn = level (pfid_parts args) 1, pi_acc = level (pfid_parts args) 2,
      pi_acg = level (pfid_parts args) 3, pi_acs = level (pfid_parts args) 4,
      pi_mode = Some (mode_of_depth (length (pfid_parts args)))\<rparr>"
proof -
  from assms have "length (pfid_parts args) \<in> {1, 2, 3, 4}" by auto
  then show ?thesis
    by (auto simp: parse_pfid_input_def Let_def level_def mode_of_depth_def)
qed

text \<open>
  C8. Without the \<^verbatim>\<open>--retry\<close> flag, when the arguments that do not start with \<^verbatim>\<open>--\<close>
  yield no part, \<^verbatim>\<open>main\<close> ends with \<^verbatim>\<open>sys.exit(1)\<close> in the state it started in: no
  external call is logged and no file is written. When the arguments yield one to four
  parts, they become levels 1 to 4 in order and the mode names the deepest level present.
  Arguments that are clean tokens are their own parts.
\<close>

theorem main_invalid_scope_and_levels:
  "(''--retry'' \<notin> set argv \<and>
    pfid_parts (filter (\<lambda>arg. \<not> startswith arg ''--'') (tl argv)) = [] \<longrightarrow>
      main X main_retry argv st = (Inl (SystemExit 1), st)) \<and>
   (1 \<le> length (pfid_parts args) \<and> length (pfid_parts args) \<le> 4 \<longrightarrow>
      parse_pfid_input args =
        \<lparr>pi_acn = level (pfid_parts args) 1, pi_acc = level (pfid_parts args) 2,
         pi_acg = level (pfid_parts args) 3, pi_acs = level (pfid_parts args) 4,
         pi_mode = Some (mode_of_depth (length (pfid_parts args)))\<rparr>) \<and>
   (list_all clean_token args \<longrightarrow> pfid_parts args = args)"
proof (intro conjI impI)
  assume h: "''--retry'' \<notin> set argv \<and>
    pfid_parts (filter (\<lambda>arg. \<not> startswith arg ''--'') (tl argv)) = []"
  then show "main X main_retry argv st = (Inl (SystemExit 1), st)"
    by (simp add: main_def Let_def parse_pfid_input_none opt_truthy_def)
next
  assume "1 \<le> length (pfid_parts args) \<and> length (pfid_parts args) \<le> 4"
  then show "parse_pfid_input args =
        \<lparr>pi_acn = level (pfid_parts args) 1, pi_acc = level (pfid_parts args) 2,
         pi_acg = level (pfid_parts args) 3, pi_acs = level (pfid_parts args) 4,
         pi_mode = Some (mode_of_depth (length (pfid_parts args)))\<rparr>"
    using parse_pfid_input_levels by blast
next
  assume "list_all clean_token args"
  then show "pfid_parts args = args" by (rule pfid_parts_clean)
qed

theorem main_invalid_scope_and_levels_witness:
  "main (ex_world (\<lambda>h c. JSONDecodeError)) (\<lambda>st. (Inr (), st)) [''prog'', ''--force'', '' - '']
     (ex_state ex_ledger []) = (Inl (SystemExit 1), ex_state ex_ledger []) \<and>
   parse_pfid_input [''0051'', ''09'', ''02''] =
     \<lparr>pi_acn = Some ''0051'', pi_acc = Some ''09'', pi_acg = Some ''02'', pi_acs = None,
      pi_mode = Some ''acn-acc-acg''\<rparr> \<and>
   parse_pfid_input [''0051-09 02'', ''07''] =
     \<lparr>pi_acn = Some ''0051'', pi_acc = Some ''09'', pi_acg = Some ''02'', pi_acs = Some ''07'',
      pi_mode = Some ''acn-acc-acg-acs''\<rparr>"
proof -
  have parts1: "pfid_parts [''0051'', ''09'', ''02''] = [''0051'', ''09'', ''02'']"
    using main_invalid_scope_and_levels [where args = "[''0051'', ''09'', ''02'']", THEN conjunct2,
        THEN conjunct2]
    by (simp add: clean_token_def is_space_def)
  have parts2: "pfid_parts [''0051-09 02'', ''07''] = [''0051'', ''09'', ''02'', ''07'']"
    by (simp add: pfid_parts_def py_split_def replace_char_def is_space_def py_strip_def)
  have parts0: "pfid_parts (filter (\<lambda>arg. \<not> startswith arg ''--'') (tl [''prog'', ''--force'', '' - ''])) = []"
    by (simp add: pfid_parts_def py_split_def replace_char_def is_space_def py_strip_def
        startswith_def)
  have a: "main (ex_world (\<lambda>h c. JSONDecodeError)) (\<lambda>st. (Inr (), st)) [''prog'', ''--force'', '' - '']
     (ex_state ex_ledger []) = (Inl (SystemExit 1), ex_state ex_ledger [])"
    using main_invalid_scope_and_levels
      [where argv = "[''prog'', ''--force'', '' - '']", THEN conjunct1] parts0
    by simp
  have b: "parse_pfid_input [''0051'', ''09'', ''02''] =
     \<lparr>pi_acn = Some ''0051'', pi_acc = Some ''09'', pi_acg = Some ''02'', pi_acs = None,
      pi_mode = Some ''acn-acc-acg''\<rparr>"
    using main_invalid_scope_and_levels [where args = "[''0051'', ''09'', ''02'']", THEN conjunct2,
        THEN conjunct1]
    by (simp add: parts1 level_def mode_of_depth_def)
  have c: "parse_pfid_input [''0051-09 02'', ''07''] =
     \<lparr>pi_acn = Some ''0051'', pi_acc = Some ''09'', pi_acg = Some ''02'', pi_acs = Some ''07'',
      pi_mode = Some ''acn-acc-acg-acs''\<rparr>"
    using main_invalid_scope_and_levels [where args = "[''0051-09 02'', ''07'']", THEN conjunct2,
        THEN conjunct1]
    by (simp add: parts2 level_def mode_of_depth_def)
  show ?thesis using a b c by simp
qed

section \<open>Scope key inferred from a batch\<close>

lemma remdups_constant:
  "xs \<noteq> [] \<Longrightarrow> \<forall>x \<in> set xs. x = c \<Longrightarrow> remdups xs = [c]"
proof (induction xs)
  case Nil
  then show ?case by simp
next
  case (Cons x xs)
  have x: "x = c" using Cons.prems by simp
  show ?case
  proof (cases "xs = []")
    case True
    with x show ?thesis by simp
  next
    case False
    with Cons have ih: "remdups xs = [c]" by simp
    from False Cons.prems have "c \<in> set xs" by (cases xs) auto
    with x ih show ?thesis by simp
  qed
qed

lemma remdups_two_distinct:
  assumes "x \<in> set xs" "y \<in> set xs" "x \<noteq> y"
  shows "remdups xs \<noteq> [c]"
proof
  assume "remdups xs = [c]"
  then have "set xs = {c}" by (metis list.set(1) list.simps(15) set_remdups)
  with assms show False by auto
qed

lemma case_not_singleton:
  "(\<And>c. xs \<noteq> [c]) \<Longrightarrow> (case xs of [a] \<Rightarrow> f a | _ \<Rightarrow> d) = d"
  by (auto split: list.splits)

lemma length_one_iff: "(length xs = Suc 0) = (\<exists>c. xs = [c])"
  by (cases xs) auto

text \<open>
  C9. A non-empty deviation batch saved without a level-2 identifier and without a mode is
  keyed from the batch. If every station carries the same level-2 identifier, the entry is
  keyed level1-level2 with mode \<^verbatim>\<open>acn-acc\<close>; if two stations differ in their level-2
  identifier, it is keyed by the level-1 identifier alone with mode \<^verbatim>\<open>acn-only\<close>. In both
  cases the entry holds every station of the batch and the file is written: the batch is
  never rejected, and no vote among the identifiers is taken.
\<close>

theorem save_odd_ones_out_infers_key:
  "odd_ones \<noteq> [] \<longrightarrow>
   ((\<forall>r \<in> set odd_ones. r_acc_id r = Some a) \<longrightarrow>
      save_odd_ones_out X odd_ones correct_schedule acn_id None acg_id acs_id None st =
        st\<lparr>ticks := ticks st + 2,
           ledger_hist :=
             AList.update (py_fmt (first_acn acn_id odd_ones) @ ''-'' @ a)
               (saved_entry X st odd_ones correct_schedule ''acn-acc''
                  (first_acn acn_id odd_ones) (Some a) acg_id acs_id)
               (load_all_odd_ones_out st) # ledger_hist st\<rparr>) \<and>
   ((\<exists>r1 \<in> set odd_ones. \<exists>r2 \<in> set odd_ones. r_acc_id r1 \<noteq> r_acc_id r2) \<longrightarrow>
      save_odd_ones_out X odd_ones correct_schedule acn_id None acg_id acs_id None st =
        st\<lparr>ticks := ticks st + 2,
           ledger_hist :=
             AList.update (json_key (first_acn acn_id odd_ones))
               (saved_entry X st odd_ones correct_schedule ''acn-only''
                  (first_acn acn_id odd_ones) None acg_id acs_id)
               (load_all_odd_ones_out st) # ledger_hist st\<rparr>)"
proof (intro impI conjI)
  assume ne: "odd_ones \<noteq> []" and same: "\<forall>r \<in> set odd_ones. r_acc_id r = Some a"
  have accs: "remdups (map r_acc_id odd_ones) = [Some a]"
    using ne same by (intro remdups_constant) auto
  show "save_odd_ones_out X odd_ones correct_schedule acn_id None acg_id acs_id None st =
        st\<lparr>ticks := ticks st + 2,
           ledger_hist :=
             AList.update (py_fmt (first_acn acn_id odd_ones) @ ''-'' @ a)
               (saved_entry X st odd_ones correct_schedule ''acn-acc''
                  (first_acn acn_id odd_ones) (Some a) acg_id acs_id)
               (load_all_odd_ones_out st) # ledger_hist st\<rparr>"
    using ne
    by (simp add: save_odd_ones_out_def accs Let_def get_site_key_def json_key_def
        opt_truthy_def py_fmt_def saved_entry_def first_acn_def save_all_odd_ones_out_def
        split: list.splits)
next
  assume ne: "odd_ones \<noteq> []"
    and two: "\<exists>r1 \<in> set odd_ones. \<exists>r2 \<in> set odd_ones. r_acc_id r1 \<noteq> r_acc_id r2"
  have accs: "\<And>c. remdups (map r_acc_id odd_ones) \<noteq> [c]"
  proof -
    fix c
    from two obtain r1 r2 where r: "r1 \<in> set odd_ones" "r2 \<in> set odd_ones"
      "r_acc_id r1 \<noteq> r_acc_id r2" by blast
    show "remdups (map r_acc_id odd_ones) \<noteq> [c]"
      by (rule remdups_two_distinct [of "r_acc_id r1" _ "r_acc_id r2"]) (use r in auto)
  qed
  have len: "length (remdups (map r_acc_id odd_ones)) \<noteq> Suc 0"
    using accs by (simp add: length_one_iff)
  show "save_odd_ones_out X odd_ones correct_schedule acn_id None acg_id acs_id None st =
        st\<lparr>ticks := ticks st + 2,
           ledger_hist :=
             AList.update (json_key (first_acn acn_id odd_ones))
               (saved_entry X st odd_ones correct_schedule ''acn-only''
                  (first_acn acn_id odd_ones) None acg_id acs_id)
               (load_all_odd_ones_out st) # ledger_hist st\<rparr>"
    using ne
    by (simp add: save_odd_ones_out_def case_not_singleton [OF accs] len Let_def
        get_site_key_def opt_truthy_def py_fmt_def saved_entry_def first_acn_def
        save_all_odd_ones_out_def split: list.splits)
qed

theorem save_odd_ones_out_infers_key_witness:
  "map (\<lambda>kv. (fst kv, e_mode (snd kv), e_acc_id (snd kv)))
     (load_all_odd_ones_out
        (save_odd_ones_out (ex_world (\<lambda>h c. JSONDecodeError))
           [ex_result ''0051-09-02-01'' ''09'' ex_deviating,
            ex_result ''0051-09-02-02'' ''09'' ex_deviating]
           default_schedule None None None None None (ex_state [] []))) =
     [(''0051-09'', ''acn-acc'', Some ''09'')] \<and>
   map (\<lambda>kv. (fst kv, e_mode (snd kv), e_acc_id (snd kv)))
     (load_all_odd_ones_out
        (save_odd_ones_out (ex_world (\<lambda>h c. JSONDecodeError))
           [ex_result ''0051-09-02-01'' ''09'' ex_deviating,
            ex_result ''0051-12-01-01'' ''12'' ex_deviating,
            ex_result ''0051-12-01-02'' ''12'' ex_deviating]
           default_schedule None None None None None (ex_state [] []))) =
     [(''0051'', ''acn-only'', None)]"
proof -
  let ?X = "ex_world (\<lambda>h c. JSONDecodeError)"
  let ?same = "[ex_result ''0051-09-02-01'' ''09'' ex_deviating,
                ex_result ''0051-09-02-02'' ''09'' ex_deviating]"
  let ?mixed = "[ex_result ''0051-09-02-01'' ''09'' ex_deviating,
                 ex_result ''0051-12-01-01'' ''12'' ex_deviating,
                 ex_result ''0051-12-01-02'' ''12'' ex_deviating]"
  have a: "save_odd_ones_out ?X ?same default_schedule None None None None None (ex_state [] []) =
      (ex_state [] [])\<lparr>ticks := ticks (ex_state [] []) + 2,
           ledger_hist :=
             AList.update (py_fmt (first_acn None ?same) @ ''-'' @ ''09'')
               (saved_entry ?X (ex_state [] []) ?same default_schedule ''acn-acc''
                  (first_acn None ?same) (Some ''09'') None None)
               (load_all_odd_ones_out (ex_state [] [])) # ledger_hist (ex_state [] [])\<rparr>"
    using save_odd_ones_out_infers_key
      [of ?same "''09''" ?X default_schedule None None None "ex_state [] []"]
    by (simp add: ex_result_def)
  have b: "save_odd_ones_out ?X ?mixed default_schedule None None None None None (ex_state [] []) =
      (ex_state [] [])\<lparr>ticks := ticks (ex_state [] []) + 2,
           ledger_hist :=
             AList.update (json_key (first_acn None ?mixed))
               (saved_entry ?X (ex_state [] []) ?mixed default_schedule ''acn-only''
                  (first_acn None ?mixed) None None None)
               (load_all_odd_ones_out (ex_state [] [])) # ledger_hist (ex_state [] [])\<rparr>"
  proof -
    have two: "\<exists>r1 \<in> set ?mixed. \<exists>r2 \<in> set ?mixed. r_acc_id r1 \<noteq> r_acc_id r2"
      by (rule bexI [of _ "ex_result ''0051-09-02-01'' ''09'' ex_deviating"],
          rule bexI [of _ "ex_result ''0051-12-01-01'' ''12'' ex_deviating"])
        (simp_all add: ex_result_def)
    have ne: "?mixed \<noteq> []" by simp
    show ?thesis
      using save_odd_ones_out_infers_key
        [of ?mixed "''09''" ?X default_schedule None None None "ex_state [] []",
          THEN mp, OF ne, THEN conjunct2, THEN mp, OF two] .
  qed
  show ?thesis
    unfolding a b
    by (simp add: ex_state_def load_all_odd_ones_out_def first_acn_def ex_result_def
        saved_entry_def py_fmt_def json_key_def)
qed

section \<open>Status update by station identifier\<close>

lemma update_station_no_match:
  "no_match pfid stations \<Longrightarrow> update_station pfid status reason t stations = None"
  by (induction stations) (simp_all add: no_match_def)

lemma update_station_first_match:
  "no_match pfid spre \<Longrightarrow> s_pfid s = pfid \<Longrightarrow>
   update_station pfid status reason t (spre @ s # spost) =
     Some (spre @ s\<lparr>s_update_status := status, s_rejection_reason := reason,
                     s_last_attempt := Some t\<rparr> # spost)"
  by (induction spre) (simp_all add: no_match_def)

lemma update_sites_skip:
  "\<forall>k \<in> set ks. (case map_of l k of None \<Rightarrow> True | Some site \<Rightarrow> no_match pfid (e_stations site)) \<Longrightarrow>
   update_sites pfid status reason t1 t2 (ks @ rest) l = update_sites pfid status reason t1 t2 rest l"
  by (induction ks) (auto simp: update_station_no_match split: option.splits)

lemma update_sites_none:
  "\<forall>k \<in> set ks. (case map_of l k of None \<Rightarrow> True | Some site \<Rightarrow> no_match pfid (e_stations site)) \<Longrightarrow>
   update_sites pfid status reason t1 t2 ks l = None"
  using update_sites_skip [where ks = ks and l = l and pfid = pfid and rest = "[]"] by simp

lemma alist_update_first:
  "k \<notin> fst ` set pre \<Longrightarrow> AList.update k v (pre @ (k, w) # post) = pre @ (k, v) # post"
  by (induction pre) auto

lemma map_of_first:
  "k \<notin> fst ` set pre \<Longrightarrow> map_of (pre @ (k, w) # post) k = Some w"
  by (induction pre) auto

lemma sites_no_match_lookup:
  assumes "list_all (\<lambda>kv. no_match pfid (e_stations (snd kv))) l"
  shows "\<forall>k \<in> set ks. (case map_of l k of None \<Rightarrow> True | Some site \<Rightarrow> no_match pfid (e_stations site))"
proof
  fix k assume "k \<in> set ks"
  show "case map_of l k of None \<Rightarrow> True | Some site \<Rightarrow> no_match pfid (e_stations site)"
  proof (cases "map_of l k")
    case None
    then show ?thesis by simp
  next
    case (Some site)
    then have "(k, site) \<in> set l" by (rule map_of_SomeD)
    with assms have "no_match pfid (e_stations site)" by (auto simp: list_all_iff)
    with Some show ?thesis by simp
  qed
qed

lemma prefix_no_match_lookup:
  assumes "list_all (\<lambda>kv. no_match pfid (e_stations (snd kv))) pre"
  shows "\<forall>k' \<in> set (map fst pre).
           (case map_of (pre @ rest) k' of None \<Rightarrow> True
            | Some site \<Rightarrow> no_match pfid (e_stations site))"
proof
  fix k' assume "k' \<in> set (map fst pre)"
  then obtain site where s: "map_of pre k' = Some site"
    by (metis map_of_eq_None_iff not_Some_eq set_map)
  then have "(k', site) \<in> set pre" by (rule map_of_SomeD)
  with assms have "no_match pfid (e_stations site)" by (auto simp: list_all_iff)
  moreover from s have "map_of (pre @ rest) k' = Some site" by (simp add: map_add_Some_iff)
  ultimately show "case map_of (pre @ rest) k' of None \<Rightarrow> True
            | Some site \<Rightarrow> no_match pfid (e_stations site)" by simp
qed

text \<open>
  C10. A status update addressed by station identifier alone (no scope key) modifies at most
  one station record: the first record with that identifier, going through the scopes in
  order and through each scope's stations in order. Its status, detail and last-attempt
  timestamp are set, the scope's last-updated timestamp is refreshed, and the file is written
  once. If no record anywhere has the identifier, the state is unchanged: the file is not
  written, the clock is not read, and nothing is raised.
\<close>

theorem update_odd_ones_status_by_pfid:
  "(list_all (\<lambda>kv. no_match pfid (e_stations (snd kv))) (load_all_odd_ones_out st) \<longrightarrow>
      update_odd_ones_status X pfid status reason None st = st) \<and>
   (\<forall>pre k site post spre s spost.
      load_all_odd_ones_out st = pre @ (k, site) # post \<and> k \<notin> fst ` set pre \<and>
      list_all (\<lambda>kv. no_match pfid (e_stations (snd kv))) pre \<and>
      e_stations site = spre @ s # spost \<and> no_match pfid spre \<and> s_pfid s = pfid \<longrightarrow>
      update_odd_ones_status X pfid status reason None st =
        st\<lparr>ticks := ticks st + 2,
           ledger_hist :=
             (pre @ (k, site\<lparr>e_stations :=
                                spre @ s\<lparr>s_update_status := status,
                                         s_rejection_reason := reason,
                                         s_last_attempt := Some (now_iso X (ticks st))\<rparr> # spost,
                              e_last_updated := now_iso X (Suc (ticks st))\<rparr>) # post)
             # ledger_hist st\<rparr>)"
proof (intro conjI impI allI)
  assume "list_all (\<lambda>kv. no_match pfid (e_stations (snd kv))) (load_all_odd_ones_out st)"
  then show "update_odd_ones_status X pfid status reason None st = st"
    using update_sites_none [OF sites_no_match_lookup]
    by (simp add: update_odd_ones_status_def opt_truthy_def Let_def)
next
  fix pre k site post spre s spost
  assume h: "load_all_odd_ones_out st = pre @ (k, site) # post \<and> k \<notin> fst ` set pre \<and>
      list_all (\<lambda>kv. no_match pfid (e_stations (snd kv))) pre \<and>
      e_stations site = spre @ s # spost \<and> no_match pfid spre \<and> s_pfid s = pfid"
  let ?l = "pre @ (k, site) # post"
  let ?t1 = "now_iso X (ticks st)" and ?t2 = "now_iso X (Suc (ticks st))"
  have skip: "update_sites pfid status reason ?t1 ?t2 (map fst ?l) ?l =
              update_sites pfid status reason ?t1 ?t2 (k # map fst post) ?l"
    using update_sites_skip [where ks = "map fst pre" and l = ?l and pfid = pfid
        and rest = "k # map fst post" and status = status and reason = reason
        and ?t1.0 = ?t1 and ?t2.0 = ?t2]
      prefix_no_match_lookup [where pre = pre and pfid = pfid and rest = "(k, site) # post"] h
    by simp
  have hit: "update_sites pfid status reason ?t1 ?t2 (k # map fst post) ?l =
     Some (pre @ (k, site\<lparr>e_stations :=
                                spre @ s\<lparr>s_update_status := status,
                                         s_rejection_reason := reason,
                                         s_last_attempt := Some ?t1\<rparr> # spost,
                              e_last_updated := ?t2\<rparr>) # post)"
    using h by (simp add: map_of_first update_station_first_match alist_update_first
        del: map_of_append)
  show "update_odd_ones_status X pfid status reason None st =
        st\<lparr>ticks := ticks st + 2,
           ledger_hist :=
             (pre @ (k, site\<lparr>e_stations :=
                                spre @ s\<lparr>s_update_status := status,
                                         s_rejection_reason := reason,
                                         s_last_attempt := Some (now_iso X (ticks st))\<rparr> # spost,
                              e_last_updated := now_iso X (Suc (ticks st))\<rparr>) # post)
             # ledger_hist st\<rparr>"
    using h skip hit
    by (simp add: update_odd_ones_status_def opt_truthy_def Let_def save_all_odd_ones_out_def)
qed

theorem update_odd_ones_status_by_pfid_witness:
  "update_odd_ones_status (ex_world (\<lambda>h c. JSONDecodeError)) ''0051-12-01-02'' ''accepted'' JNull None
     (ex_state ex_ledger []) =
   \<lparr>calls = [], ticks = 2, stdin = [], progress_hist = [],
    ledger_hist =
      [[(''0051-09'', ex_site [ex_station ''0051-09-02-01'' ''accepted'',
                              ex_station ''0051-09-02-02'' ''accepted'']),
        (''0051-12'', (ex_site [ex_station ''0051-12-01-01'' ''accepted'',
                               (ex_station ''0051-12-01-02'' ''accepted'')
                                 \<lparr>s_last_attempt := Some ''t0''\<rparr>])
                        \<lparr>e_last_updated := ''t1''\<rparr>)],
       ex_ledger]\<rparr> \<and>
   update_odd_ones_status (ex_world (\<lambda>h c. JSONDecodeError)) ''0051-99-01-01'' ''accepted'' JNull None
     (ex_state ex_ledger []) = ex_state ex_ledger []"
proof -
  let ?X = "ex_world (\<lambda>h c. JSONDecodeError)"
  have a: "update_odd_ones_status ?X ''0051-99-01-01'' ''accepted'' JNull None
     (ex_state ex_ledger []) = ex_state ex_ledger []"
    using update_odd_ones_status_by_pfid
      [of "''0051-99-01-01''" "ex_state ex_ledger []" ?X "''accepted''" JNull, THEN conjunct1]
    by (simp add: ex_state_def ex_ledger_def ex_site_def ex_station_def
        load_all_odd_ones_out_def no_match_def)
  have b: "update_odd_ones_status ?X ''0051-12-01-02'' ''accepted'' JNull None
     (ex_state ex_ledger []) =
     (ex_state ex_ledger [])\<lparr>ticks := ticks (ex_state ex_ledger []) + 2,
       ledger_hist :=
         ([(''0051-09'', ex_site [ex_station ''0051-09-02-01'' ''accepted'',
                              ex_station ''0051-09-02-02'' ''accepted''])] @
          (''0051-12'', (ex_site [ex_station ''0051-12-01-01'' ''accepted'',
                               ex_station ''0051-12-01-02'' ''rejected''])
             \<lparr>e_stations := [ex_station ''0051-12-01-01'' ''accepted''] @
                (ex_station ''0051-12-01-02'' ''rejected'')
                  \<lparr>s_update_status := ''accepted'', s_rejection_reason := JNull,
                   s_last_attempt := Some (now_iso ?X (ticks (ex_state ex_ledger [])))\<rparr> # [],
              e_last_updated := now_iso ?X (Suc (ticks (ex_state ex_ledger [])))\<rparr>) # [])
         # ledger_hist (ex_state ex_ledger [])\<rparr>"
    by (rule update_odd_ones_status_by_pfid
      [of "''0051-12-01-02''" "ex_state ex_ledger []" ?X "''accepted''" JNull,
        THEN conjunct2, rule_format])
      (simp add: ex_state_def ex_ledger_def ex_site_def ex_station_def
        load_all_odd_ones_out_def no_match_def)
  show ?thesis
    using a b
    by (simp add: ex_state_def ex_ledger_def ex_site_def ex_station_def ex_world_def ex_clock_def)
qed

end
